theory Spec2Isabelle
  imports Complex_Main
begin

section \<open>Tensors\<close>

text \<open>
  The renderer of \<^verbatim>\<open>gaussian_renderer/__init__.py\<close> works on torch tensors whose
  leading dimension is the number of primitives. A tensor is modelled as the list of its
  rows; the trailing dimensions that the data model fixes (3 for positions and scales, 4 for
  quaternions, 1 for opacity) are part of the row type. Entries are real numbers: rounding
  and the special values of floating point are not modelled.

  The coefficient tensor has shape N x C x 3. Its second dimension is read by the code
  (\<^verbatim>\<open>shs_final.shape[1]\<close>) even when no row is left, so it is stored beside the rows.
\<close>

type_synonym vec3 = "real \<times> real \<times> real"
type_synonym vec4 = "real \<times> real \<times> real \<times> real"
type_synonym mat4 = "real list list"
type_synonym image = "real list list list"

datatype sh_tensor = Sh_tensor (shape1: nat) (blocks: "vec3 list list")

definition zeros_like :: "vec3 list \<Rightarrow> vec3 list" where
  "zeros_like t = map (\<lambda>_. (0, 0, 0)) t"

definition ones_like :: "'a list \<Rightarrow> real list" where
  "ones_like t = map (\<lambda>_. 1) t"

fun add_scalar :: "vec3 \<Rightarrow> real \<Rightarrow> vec3" where
  "add_scalar (x, y, z) c = (x + c, y + c, z + c)"

fun sub_vec3 :: "vec3 \<Rightarrow> vec3 \<Rightarrow> vec3" where
  "sub_vec3 (x, y, z) (a, b, c) = (x - a, y - b, z - c)"

text \<open>\<^verbatim>\<open>torch.norm(t, dim=1)\<close>: the Euclidean norm of every row.\<close>

fun norm_row :: "vec3 \<Rightarrow> real" where
  "norm_row (x, y, z) = sqrt (x^2 + y^2 + z^2)"

definition norm_dim1 :: "vec3 list \<Rightarrow> real list" where
  "norm_dim1 t = map norm_row t"

fun div_row :: "vec3 \<Rightarrow> real \<Rightarrow> vec3" where
  "div_row (x, y, z) n = (x / n, y / n, z / n)"

fun clamp_min_row :: "vec3 \<Rightarrow> real \<Rightarrow> vec3" where
  "clamp_min_row (x, y, z) m = (max x m, max y m, max z m)"

definition clamp_min :: "vec3 list \<Rightarrow> real \<Rightarrow> vec3 list" where
  "clamp_min t m = map (\<lambda>r. clamp_min_row r m) t"

fun components :: "vec3 \<Rightarrow> real list" where
  "components (x, y, z) = [x, y, z]"

section \<open>Errors, external calls and their trace\<close>

text \<open>
  An exception raised by the renderer itself is a constructor of its own; an exception that
  comes out of an external collaborator (deformation network, activation of the model,
  spherical-harmonics evaluation, rasterizer) is propagated unchanged and is tagged
  \<open>CollaboratorError\<close>.
\<close>

datatype error =
    NotImplementedError
  | TypeError
  | AttributeError
  | IndexError
  | RuntimeError
  | CollaboratorError string

record raster_settings =
  rs_image_height :: int
  rs_image_width :: int
  rs_tanfovx :: real
  rs_tanfovy :: real
  rs_bg :: vec3
  rs_scale_modifier :: real
  rs_viewmatrix :: mat4
  rs_projmatrix :: mat4
  rs_sh_degree :: nat
  rs_campos :: vec3
  rs_prefiltered :: bool
  rs_debug :: bool

text \<open>The keyword arguments of the rasterizer call.\<close>

record raster_args =
  means3D :: "vec3 list"
  means2D :: "vec3 list"
  shs :: sh_tensor
  colors_precomp :: "vec3 list option"
  opacities :: "real list"
  scales :: "vec3 list option"
  rotations :: "vec4 list option"
  cov3D_precomp :: "real list list option"

type_synonym sh_view = "(real list \<times> real list \<times> real list) list"

datatype event =
    Retain_grad
  | Deformation_call "vec3 list" "vec3 list option" "vec4 list option" "real list"
      sh_tensor "real list"
  | Eval_sh_call nat sh_view "vec3 list"
  | Rasterizer_call raster_settings raster_args

text \<open>
  A computation yields the external calls it made, in order, and either the exception that
  ended it or its value.
\<close>

type_synonym 'a run = "event list \<times> (error + 'a)"

definition ok :: "'a \<Rightarrow> 'a run" where
  "ok x = ([], Inr x)"

definition raise :: "error \<Rightarrow> 'a run" where
  "raise e = ([], Inl e)"

definition external :: "event \<Rightarrow> string + 'a \<Rightarrow> 'a run" where
  "external ev r =
     ([ev], case r of Inl msg \<Rightarrow> Inl (CollaboratorError msg) | Inr x \<Rightarrow> Inr x)"

definition bind_run :: "'a run \<Rightarrow> ('a \<Rightarrow> 'b run) \<Rightarrow> 'b run" where
  "bind_run m f =
     (case m of
        (tr, Inl e) \<Rightarrow> (tr, Inl e)
      | (tr, Inr x) \<Rightarrow> (case f x of (tr', r) \<Rightarrow> (tr @ tr', r)))"

fun rasterizer_args :: "event list \<Rightarrow> raster_args list" where
  "rasterizer_args [] = []"
| "rasterizer_args (Rasterizer_call s a # tr) = a # rasterizer_args tr"
| "rasterizer_args (_ # tr) = rasterizer_args tr"

fun is_deformation :: "event \<Rightarrow> bool" where
  "is_deformation (Deformation_call _ _ _ _ _ _) = True"
| "is_deformation _ = False"

fun is_eval_sh :: "event \<Rightarrow> bool" where
  "is_eval_sh (Eval_sh_call _ _ _) = True"
| "is_eval_sh _ = False"

section \<open>Inputs of the renderer\<close>

record camera =
  FoVx :: real
  FoVy :: real
  image_height :: int
  image_width :: int
  world_view_transform :: mat4
  full_proj_transform :: mat4
  camera_center :: vec3
  time :: real

text \<open>
  \<^verbatim>\<open>viewpoint_camera\<close> is either a camera object or, for the camera type
  \<^verbatim>\<open>"PanopticSports"\<close>, a dictionary with the keys \<^verbatim>\<open>'camera'\<close> (ready-made
  rasterizer settings) and \<^verbatim>\<open>'time'\<close>.
\<close>

datatype viewpoint =
    Camera camera
  | Panoptic_dict raster_settings real

record pipe =
  debug :: bool
  compute_cov3D_python :: bool
  convert_SHs_python :: bool

text \<open>
  The Gaussian model \<^verbatim>\<open>pc\<close>. The fields \<open>raw_opacity\<close>, \<open>raw_scaling\<close>,
  \<open>raw_rotation\<close>, \<open>deformation_table\<close> and \<open>deformation\<close> are the attributes
  \<^verbatim>\<open>_opacity\<close>, \<^verbatim>\<open>_scaling\<close>, \<^verbatim>\<open>_rotation\<close>, \<^verbatim>\<open>_deformation_table\<close>
  and \<^verbatim>\<open>_deformation\<close>. The class is defined outside the renderer: its deformation
  network, its covariance and its three activation functions are parameters here. An
  activation is given by what it returns on a tensor and, for the two that the renderer
  may call on \<^verbatim>\<open>None\<close>, by what the call on \<^verbatim>\<open>None\<close> does: it raises (the
  message is kept) or it returns a value, \<^verbatim>\<open>None\<close> or a tensor.
\<close>

record gaussian_model =
  get_xyz :: "vec3 list"
  raw_opacity :: "real list"
  raw_scaling :: "vec3 list"
  raw_rotation :: "vec4 list"
  get_features :: sh_tensor
  deformation_table :: "bool list"
  active_sh_degree :: nat
  max_sh_degree :: nat
  get_covariance :: "real \<Rightarrow> real list list"
  deformation :: "vec3 list \<Rightarrow> vec3 list option \<Rightarrow> vec4 list option \<Rightarrow> real list
      \<Rightarrow> sh_tensor \<Rightarrow> real list
      \<Rightarrow> string + (vec3 list \<times> vec3 list option \<times> vec4 list option \<times> real list \<times> sh_tensor)"
  scaling_activation :: "vec3 list \<Rightarrow> vec3 list"
  scaling_activation_None :: "string + vec3 list option"
  rotation_activation :: "vec4 list \<Rightarrow> vec4 list"
  rotation_activation_None :: "string + vec4 list option"
  opacity_activation :: "real list \<Rightarrow> real list"

text \<open>The marker descriptor \<^verbatim>\<open>cams_pc\<close> of the preview path.\<close>

record cams =
  show_cameras :: bool
  xyzs :: "vec3 list"
  qs :: "vec4 list"
  scale :: vec3
  show_scene :: bool

text \<open>
  What the module imports or calls on the execution environment: the outcome of
  \<^verbatim>\<open>retain_grad()\<close> on the screen-space anchor, \<^verbatim>\<open>eval_sh\<close> and the rasterizer.
\<close>

record env =
  retain_grad :: "string + unit"
  eval_sh :: "nat \<Rightarrow> sh_view \<Rightarrow> vec3 list \<Rightarrow> string + vec3 list"
  rasterizer :: "raster_settings \<Rightarrow> raster_args \<Rightarrow> string + (image \<times> int list \<times> image)"

text \<open>
  The returned dictionary; the key \<^verbatim>\<open>"render"\<close> is the field \<open>render_image\<close>.
\<close>

record render_output =
  render_image :: image
  viewspace_points :: "vec3 list"
  visibility_filter :: "bool list"
  radii :: "int list"
  depth :: image

section \<open>The steps shared by the entry points\<close>

text \<open>Python's \<^verbatim>\<open>sub in s\<close> on strings.\<close>

fun substring_in :: "string \<Rightarrow> string \<Rightarrow> bool" where
  "substring_in sub [] = (sub = [])"
| "substring_in sub (c # cs) = (take (length sub) (c # cs) = sub \<or> substring_in sub cs)"

text \<open>
  \<^verbatim>\<open>try: screenspace_points.retain_grad() except: pass\<close>: the call is made and whatever
  it raises is dropped.
\<close>

definition try_retain_grad :: "env \<Rightarrow> unit run" where
  "try_retain_grad e =
     (case retain_grad e of
        Inl msg \<Rightarrow> ([Retain_grad], Inr ())
      | Inr u \<Rightarrow> ([Retain_grad], Inr ()))"

text \<open>The settings built from a camera object (lines 38-54 and 152-169).\<close>

definition settings_of_camera :: "camera \<Rightarrow> gaussian_model \<Rightarrow> pipe \<Rightarrow> vec3 \<Rightarrow> real
    \<Rightarrow> raster_settings" where
  "settings_of_camera c pc pp bg_color scaling_modifier =
     \<lparr> rs_image_height = image_height c,
       rs_image_width = image_width c,
       rs_tanfovx = tan (FoVx c * 0.5),
       rs_tanfovy = tan (FoVy c * 0.5),
       rs_bg = bg_color,
       rs_scale_modifier = scaling_modifier,
       rs_viewmatrix = world_view_transform c,
       rs_projmatrix = full_proj_transform c,
       rs_sh_degree = active_sh_degree pc,
       rs_campos = camera_center c,
       rs_prefiltered = False,
       rs_debug = debug pp \<rparr>"

text \<open>
  Lines 77-89, 192-200: the stage decides between the arrays as they are and the
  deformation network; any other stage raises \<^verbatim>\<open>NotImplementedError\<close>.
\<close>

definition deformation_stage :: "gaussian_model \<Rightarrow> string \<Rightarrow> vec3 list \<Rightarrow> vec3 list option
    \<Rightarrow> vec4 list option \<Rightarrow> real list \<Rightarrow> sh_tensor \<Rightarrow> real list
    \<Rightarrow> (vec3 list \<times> vec3 list option \<times> vec4 list option \<times> real list \<times> sh_tensor) run" where
  "deformation_stage pc stage means3D' scales' rotations' opacity' shs' time_rep =
     (if substring_in ''coarse'' stage then
        ok (means3D', scales', rotations', opacity', shs')
      else if substring_in ''fine'' stage then
        external (Deformation_call means3D' scales' rotations' opacity' shs' time_rep)
          (deformation pc means3D' scales' rotations' opacity' shs' time_rep)
      else raise NotImplementedError)"

text \<open>
  Lines 93-94 call \<^verbatim>\<open>pc.scaling_activation\<close> and \<^verbatim>\<open>pc.rotation_activation\<close> on what
  the stage returned, which is \<^verbatim>\<open>None\<close> when the covariance is precomputed. The
  outcome of a call on \<^verbatim>\<open>None\<close> is decided by the activation: its exception is
  propagated, its value is passed on.
\<close>

definition apply_activation :: "('a \<Rightarrow> 'a) \<Rightarrow> string + 'a option \<Rightarrow> 'a option
    \<Rightarrow> 'a option run" where
  "apply_activation f on_None x =
     (case x of
        Some t \<Rightarrow> ok (Some (f t))
      | None \<Rightarrow>
          (case on_None of
             Inl msg \<Rightarrow> raise (CollaboratorError msg)
           | Inr v \<Rightarrow> ok v))"

text \<open>
  Lines 37-57 of \<^verbatim>\<open>render\<close>: unless the camera type is \<^verbatim>\<open>"PanopticSports"\<close> the
  attributes of a camera object are read (a dictionary has none: \<^verbatim>\<open>AttributeError\<close>);
  otherwise the viewpoint is subscripted (a camera object is not subscriptable:
  \<^verbatim>\<open>TypeError\<close>). The time is repeated once per row of \<^verbatim>\<open>means3D\<close>.
\<close>

definition raster_setup :: "string option \<Rightarrow> viewpoint \<Rightarrow> gaussian_model \<Rightarrow> pipe \<Rightarrow> vec3
    \<Rightarrow> real \<Rightarrow> nat \<Rightarrow> (raster_settings \<times> real list) run" where
  "raster_setup cam_type viewpoint_camera pc pp bg_color scaling_modifier n =
     (if cam_type \<noteq> Some ''PanopticSports'' then
        (case viewpoint_camera of
           Camera c \<Rightarrow>
             ok (settings_of_camera c pc pp bg_color scaling_modifier, replicate n (time c))
         | Panoptic_dict s t \<Rightarrow> raise AttributeError)
      else
        (case viewpoint_camera of
           Camera c \<Rightarrow> raise TypeError
         | Panoptic_dict s t \<Rightarrow> ok (s, replicate n t)))"

text \<open>
  Line 104, \<^verbatim>\<open>pc.get_features.transpose(1, 2).view(-1, 3, (pc.max_sh_degree + 1) ** 2)\<close>:
  on a tensor of shape N x K x 3 the view is the transposed tensor, and a tensor without
  rows has the empty view. With rows and a width other than K the transposed tensor
  cannot in general be viewed in that shape; such a tensor is outside the data model,
  where the width is \<open>(max_sh_degree + 1)\<^sup>2\<close>, and is reported as \<^verbatim>\<open>RuntimeError\<close>.
\<close>

definition transpose_view :: "sh_tensor \<Rightarrow> nat \<Rightarrow> sh_view run" where
  "transpose_view f k =
     (if blocks f = [] then ok []
      else if shape1 f = k then
        ok (map (\<lambda>b. (map fst b, map (fst \<circ> snd) b, map (snd \<circ> snd) b)) (blocks f))
      else raise RuntimeError)"

text \<open>Row-wise subtraction of two N x 3 tensors, with torch's broadcast of a single row.\<close>

definition sub_rows :: "vec3 list \<Rightarrow> vec3 list \<Rightarrow> vec3 list run" where
  "sub_rows a b =
     (if length a = length b then ok (map2 sub_vec3 a b)
      else if length b = 1 then ok (map (\<lambda>r. sub_vec3 r (hd b)) a)
      else if length a = 1 then ok (map (\<lambda>r. sub_vec3 (hd a) r) b)
      else raise RuntimeError)"

text \<open>
  Line 105 reads \<^verbatim>\<open>viewpoint_camera.camera_center\<close>, which a dictionary does not have.
\<close>

definition center_of :: "viewpoint \<Rightarrow> vec3 run" where
  "center_of viewpoint_camera =
     (case viewpoint_camera of
        Camera c \<Rightarrow> ok (camera_center c)
      | Panoptic_dict s t \<Rightarrow> raise AttributeError)"

text \<open>
  Lines 101-113: the colours handed to the rasterizer as \<^verbatim>\<open>colors_precomp\<close>. The
  view direction is divided by its norm; for a primitive at the camera centre the norm is
  zero and torch yields a value that is not a number, which the real numbers of the model
  do not have (such inputs are excluded by the callers).
\<close>

definition resolve_color :: "env \<Rightarrow> viewpoint \<Rightarrow> gaussian_model \<Rightarrow> pipe \<Rightarrow> vec3 list option
    \<Rightarrow> vec3 list option run" where
  "resolve_color e viewpoint_camera pc pp override_color =
     (case override_color of
        None \<Rightarrow>
          if convert_SHs_python pp then
            bind_run (transpose_view (get_features pc) ((max_sh_degree pc + 1)^2))
              (\<lambda>shs_view.
            bind_run (center_of viewpoint_camera) (\<lambda>center.
            bind_run (sub_rows (get_xyz pc)
                (replicate (length (blocks (get_features pc))) center)) (\<lambda>dir_pp.
            let dir_pp_normalized = map (\<lambda>r. div_row r (norm_row r)) dir_pp in
            bind_run (external
                (Eval_sh_call (active_sh_degree pc) shs_view dir_pp_normalized)
                (eval_sh e (active_sh_degree pc) shs_view dir_pp_normalized)) (\<lambda>sh2rgb.
            ok (Some (clamp_min (map (\<lambda>r. add_scalar r 0.5) sh2rgb) 0.0))))))
          else ok None
      | Some c \<Rightarrow> ok (Some c))"

text \<open>
  The call of the rasterizer and the dictionary that is returned (lines 117-135, 265-280).
\<close>

definition rasterize :: "env \<Rightarrow> raster_settings \<Rightarrow> raster_args \<Rightarrow> vec3 list
    \<Rightarrow> render_output run" where
  "rasterize e raster_settings' args screenspace_points =
     bind_run (external (Rasterizer_call raster_settings' args)
         (rasterizer e raster_settings' args)) (\<lambda>(rendered_image, radii', depth').
     ok \<lparr> render_image = rendered_image,
          viewspace_points = screenspace_points,
          visibility_filter = map (\<lambda>r. r > 0) radii',
          radii = radii',
          depth = depth' \<rparr>)"

section \<open>The training path: \<^verbatim>\<open>render\<close>\<close>

definition render :: "env \<Rightarrow> viewpoint \<Rightarrow> gaussian_model \<Rightarrow> pipe \<Rightarrow> vec3 \<Rightarrow> real
    \<Rightarrow> vec3 list option \<Rightarrow> string \<Rightarrow> string option \<Rightarrow> render_output run" where
  "render e viewpoint_camera pc pp bg_color scaling_modifier override_color stage cam_type =
     (let screenspace_points = zeros_like (get_xyz pc) in
      bind_run (try_retain_grad e) (\<lambda>_.
      let means3D' = get_xyz pc in
      bind_run (raster_setup cam_type viewpoint_camera pc pp bg_color scaling_modifier
          (length means3D')) (\<lambda>(raster_settings', time_rep).
      let means2D' = screenspace_points;
          opacity = raw_opacity pc;
          shs' = get_features pc;
          (scales', rotations', cov3D_precomp') =
            (if compute_cov3D_python pp
             then (None, None, Some (get_covariance pc scaling_modifier))
             else (Some (raw_scaling pc), Some (raw_rotation pc), None)) in
      bind_run (deformation_stage pc stage means3D' scales' rotations' opacity shs' time_rep)
        (\<lambda>(means3D_final, scales_final, rotations_final, opacity_final, shs_final).
      bind_run (apply_activation (scaling_activation pc) (scaling_activation_None pc)
          scales_final) (\<lambda>scales_final.
      bind_run (apply_activation (rotation_activation pc) (rotation_activation_None pc)
          rotations_final) (\<lambda>rotations_final.
      let opacity = opacity_activation pc opacity_final in
      bind_run (resolve_color e viewpoint_camera pc pp override_color)
        (\<lambda>colors_precomp'.
      rasterize e raster_settings'
        \<lparr> means3D = means3D_final,
          means2D = means2D',
          shs = shs_final,
          colors_precomp = colors_precomp',
          opacities = opacity,
          scales = scales_final,
          rotations = rotations_final,
          cov3D_precomp = cov3D_precomp' \<rparr>
        screenspace_points)))))))"

section \<open>The preview path: \<^verbatim>\<open>render_no_train\<close>\<close>

text \<open>
  The arrays that the preview path filters and composes: the variables
  \<^verbatim>\<open>means3D_final\<close>, \<^verbatim>\<open>means2D\<close> (here \<open>screen_means2D\<close>), \<^verbatim>\<open>shs_final\<close>,
  \<^verbatim>\<open>opacity\<close>, \<^verbatim>\<open>scales_final\<close> and \<^verbatim>\<open>rotations_final\<close> after line 205.
\<close>

record batch =
  means3D_final :: "vec3 list"
  screen_means2D :: "vec3 list"
  shs_final :: sh_tensor
  opacity :: "real list"
  scales_final :: "vec3 list"
  rotations_final :: "vec4 list"

text \<open>
  \<^verbatim>\<open>t[mask]\<close> with a boolean mask: the rows whose mask entry is true, in order. torch
  raises \<^verbatim>\<open>IndexError\<close> when the mask is not as long as the tensor.
\<close>

definition mask_index :: "'a list \<Rightarrow> bool list \<Rightarrow> 'a list run" where
  "mask_index t mask' =
     (if length mask' = length t then ok (map fst (filter snd (zip t mask')))
      else raise IndexError)"

text \<open>
  A scale or rotation that is \<^verbatim>\<open>None\<close> cannot be subscripted: \<^verbatim>\<open>TypeError\<close>.
\<close>

definition subscript :: "'a list option \<Rightarrow> bool list \<Rightarrow> 'a list run" where
  "subscript t mask' =
     (case t of None \<Rightarrow> raise TypeError | Some t' \<Rightarrow> mask_index t' mask')"

text \<open>
  Lines 212-221, on the positions, the anchors, the coefficients, the activated opacity
  and what the activations returned for scale and rotation.
\<close>

definition filter_arrays :: "vec3 list \<Rightarrow> vec3 list \<Rightarrow> sh_tensor \<Rightarrow> real list
    \<Rightarrow> vec3 list option \<Rightarrow> vec4 list option \<Rightarrow> real \<Rightarrow> batch run" where
  "filter_arrays m3_final m2 sh_final op sc_final ro_final show_radius =
     (let distances = norm_dim1 m3_final;
          mask' = map (\<lambda>d. d < show_radius) distances in
      bind_run (mask_index m3_final mask') (\<lambda>m3.
      bind_run (mask_index m2 mask') (\<lambda>m2.
      bind_run (mask_index (blocks sh_final) mask') (\<lambda>sh.
      bind_run (mask_index op mask') (\<lambda>op.
      bind_run (subscript sc_final mask') (\<lambda>sc.
      bind_run (subscript ro_final mask') (\<lambda>ro.
      ok \<lparr> means3D_final = m3,
           screen_means2D = m2,
           shs_final = Sh_tensor (shape1 sh_final) sh,
           opacity = op,
           scales_final = sc,
           rotations_final = ro \<rparr>)))))))"

text \<open>The filter on a batch, whose scale and rotation are tensors.\<close>

definition spatial_filter :: "batch \<Rightarrow> real \<Rightarrow> batch run" where
  "spatial_filter b show_radius =
     filter_arrays (means3D_final b) (screen_means2D b) (shs_final b) (opacity b)
       (Some (scales_final b)) (Some (rotations_final b)) show_radius"

text \<open>
  \<^verbatim>\<open>torch.cat([a, b], dim=0)\<close> on coefficient tensors needs the same second dimension.
\<close>

definition cat_sh :: "sh_tensor \<Rightarrow> sh_tensor \<Rightarrow> sh_tensor run" where
  "cat_sh a b =
     (if shape1 a = shape1 b then ok (Sh_tensor (shape1 a) (blocks a @ blocks b))
      else raise RuntimeError)"

text \<open>
  Lines 228-245: the arrays of the marker set. The source's variables with a trailing
  underscore (\<^verbatim>\<open>opacity_\<close>) carry the suffix \<open>_m\<close> here.
\<close>

definition marker_batch :: "cams \<Rightarrow> nat \<Rightarrow> batch" where
  "marker_batch cp width =
     (let xyzs' = map (\<lambda>r. add_scalar r 0) (xyzs cp);
          rotations_final_m = map (\<lambda>(w, x, y, z). (w + 0, x + 0, y + 0, z + 0)) (qs cp);
          shs_final_m = Sh_tensor width (map (\<lambda>_. replicate width (0, 0, 0)) xyzs');
          opacity_m = map (\<lambda>x. x + 0) (ones_like xyzs');
          scaling = map (\<lambda>(x, y, z).
              (x + fst (scale cp), y + fst (snd (scale cp)), z + snd (snd (scale cp))))
            (zeros_like xyzs');
          scales_final_m = scaling;
          means2D_m = zeros_like xyzs';
          means3D_final_m = xyzs' in
      \<lparr> means3D_final = means3D_final_m,
        screen_means2D = means2D_m,
        shs_final = shs_final_m,
        opacity = opacity_m,
        scales_final = scales_final_m,
        rotations_final = rotations_final_m \<rparr>)"

text \<open>Lines 225-261.\<close>

definition compose_markers :: "batch \<Rightarrow> cams option \<Rightarrow> batch run" where
  "compose_markers b cams_pc =
     (case cams_pc of
        None \<Rightarrow> ok b
      | Some cp \<Rightarrow>
          if show_cameras cp then
            (let mk = marker_batch cp (shape1 (shs_final b)) in
             if show_scene cp then
               bind_run (cat_sh (shs_final b) (shs_final mk)) (\<lambda>sh.
               ok \<lparr> means3D_final = means3D_final b @ means3D_final mk,
                    screen_means2D = screen_means2D b @ screen_means2D mk,
                    shs_final = sh,
                    opacity = opacity b @ opacity mk,
                    scales_final = scales_final b @ scales_final mk,
                    rotations_final = rotations_final b @ rotations_final mk \<rparr>)
             else ok mk)
          else ok b)"

text \<open>Lines 265-273: the keyword arguments of the rasterizer call of the preview path.\<close>

definition batch_args :: "batch \<Rightarrow> vec3 list option \<Rightarrow> real list list option \<Rightarrow> raster_args" where
  "batch_args b colors_precomp' cov3D_precomp' =
     \<lparr> means3D = means3D_final b,
       means2D = screen_means2D b,
       shs = shs_final b,
       colors_precomp = colors_precomp',
       opacities = opacity b,
       scales = Some (scales_final b),
       rotations = Some (rotations_final b),
       cov3D_precomp = cov3D_precomp' \<rparr>"

definition render_no_train :: "env \<Rightarrow> viewpoint \<Rightarrow> gaussian_model \<Rightarrow> pipe \<Rightarrow> vec3 \<Rightarrow> real
    \<Rightarrow> string \<Rightarrow> string option \<Rightarrow> cams option \<Rightarrow> real \<Rightarrow> render_output run" where
  "render_no_train e viewpoint_camera pc pp bg_color scaling_modifier stage cam_type cams_pc
       show_radius =
     (let screenspace_points = zeros_like (get_xyz pc);
          means3D' = get_xyz pc in
      bind_run
        (case viewpoint_camera of
           Camera c \<Rightarrow>
             ok (settings_of_camera c pc pp bg_color scaling_modifier,
                 replicate (length means3D') (time c))
         | Panoptic_dict s t \<Rightarrow> raise AttributeError) (\<lambda>(raster_settings', time_rep).
      let means2D' = screenspace_points;
          opacity' = raw_opacity pc;
          shs' = get_features pc;
          scales' = Some (raw_scaling pc);
          rotations' = Some (raw_rotation pc) in
      bind_run (deformation_stage pc stage means3D' scales' rotations' opacity' shs' time_rep)
        (\<lambda>(m3_final, sc_final, ro_final, opacity_final, sh_final).
      bind_run (apply_activation (scaling_activation pc) (scaling_activation_None pc)
          sc_final) (\<lambda>sc_final.
      bind_run (apply_activation (rotation_activation pc) (rotation_activation_None pc)
          ro_final) (\<lambda>ro_final.
      let opacity' = opacity_activation pc opacity_final;
          cov3D_precomp' = None;
          colors_precomp' = None in
      bind_run (filter_arrays m3_final means2D' sh_final opacity' sc_final ro_final
          show_radius) (\<lambda>b.
      bind_run (compose_markers b cams_pc) (\<lambda>b.
      rasterize e raster_settings' (batch_args b colors_precomp' cov3D_precomp')
        screenspace_points)))))))"

section \<open>Well-typed viewpoints\<close>

text \<open>
  The viewpoint fits the camera type when the attribute reads or the subscripts of lines
  37-57 succeed; the preview path always reads the attributes of a camera object.
\<close>

definition camera_fits :: "string option \<Rightarrow> viewpoint \<Rightarrow> bool" where
  "camera_fits cam_type viewpoint_camera =
     (case viewpoint_camera of
        Camera c \<Rightarrow> cam_type \<noteq> Some ''PanopticSports''
      | Panoptic_dict s t \<Rightarrow> cam_type = Some ''PanopticSports'')"

fun is_camera_object :: "viewpoint \<Rightarrow> bool" where
  "is_camera_object (Camera c) = True"
| "is_camera_object (Panoptic_dict s t) = False"

section \<open>Rows of the preview path\<close>

text \<open>
  The indices of the positions that lie strictly inside the radius, in increasing order,
  and the rows of an array at a list of indices.
\<close>

definition kept_rows :: "real \<Rightarrow> vec3 list \<Rightarrow> nat list" where
  "kept_rows show_radius ps =
     filter (\<lambda>i. norm_row (ps ! i) < show_radius) [0..<length ps]"

definition select_rows :: "nat list \<Rightarrow> 'a list \<Rightarrow> 'a list" where
  "select_rows idx t = map (\<lambda>i. t ! i) idx"

text \<open>
  The row counts of the six arrays of a batch, its first and its remaining rows, whether a
  marker descriptor is given and shown, and the number of rows that reach the rasterizer
  when the filter keeps \<open>k\<close> rows.
\<close>

definition batch_rows :: "batch \<Rightarrow> nat list" where
  "batch_rows b =
     [length (means3D_final b), length (screen_means2D b), length (blocks (shs_final b)),
      length (opacity b), length (scales_final b), length (rotations_final b)]"

definition take_rows :: "nat \<Rightarrow> batch \<Rightarrow> batch" where
  "take_rows n b =
     \<lparr> means3D_final = take n (means3D_final b),
       screen_means2D = take n (screen_means2D b),
       shs_final = Sh_tensor (shape1 (shs_final b)) (take n (blocks (shs_final b))),
       opacity = take n (opacity b),
       scales_final = take n (scales_final b),
       rotations_final = take n (rotations_final b) \<rparr>"

definition drop_rows :: "nat \<Rightarrow> batch \<Rightarrow> batch" where
  "drop_rows n b =
     \<lparr> means3D_final = drop n (means3D_final b),
       screen_means2D = drop n (screen_means2D b),
       shs_final = Sh_tensor (shape1 (shs_final b)) (drop n (blocks (shs_final b))),
       opacity = drop n (opacity b),
       scales_final = drop n (scales_final b),
       rotations_final = drop n (rotations_final b) \<rparr>"

fun rasterized_rows :: "cams option \<Rightarrow> nat \<Rightarrow> nat" where
  "rasterized_rows None k = k"
| "rasterized_rows (Some cp) k =
     (if show_cameras cp then (if show_scene cp then k + length (xyzs cp) else length (xyzs cp))
      else k)"

fun markers_shown :: "cams option \<Rightarrow> bool" where
  "markers_shown None = False"
| "markers_shown (Some cp) = show_cameras cp"

section \<open>Concrete inputs\<close>

text \<open>
  A scene of one primitive at (1, 0, 0), seen from the origin. The deformation network of
  the example swaps the first two coordinates, so it moves the primitive to (0, 1, 0); the
  activations are identities, which return \<^verbatim>\<open>None\<close> for \<^verbatim>\<open>None\<close>. A second
  model has the exponential as scaling activation, which raises on \<^verbatim>\<open>None\<close> as
  \<^verbatim>\<open>torch.exp\<close> does. In the example environment \<^verbatim>\<open>retain_grad\<close> raises, the
  spherical-harmonics evaluation returns the view direction with its first component
  lowered by 1.7, and the rasterizer returns one radius per primitive.
\<close>

definition example_camera :: camera where
  "example_camera =
     \<lparr> FoVx = 0, FoVy = 0, image_height = 1, image_width = 1,
       world_view_transform = [], full_proj_transform = [],
       camera_center = (0, 0, 0), time = 0 \<rparr>"

definition example_model :: gaussian_model where
  "example_model =
     \<lparr> get_xyz = [(1, 0, 0)],
       raw_opacity = [0],
       raw_scaling = [(0, 0, 0)],
       raw_rotation = [(1, 0, 0, 0)],
       get_features = Sh_tensor 1 [[(0, 0, 0)]],
       deformation_table = [True],
       active_sh_degree = 0,
       max_sh_degree = 0,
       get_covariance = (\<lambda>_. [[0, 0, 0, 0, 0, 0]]),
       deformation = (\<lambda>m s r o' sh t. Inr (map (\<lambda>(x, y, z). (y, x, z)) m, s, r, o', sh)),
       scaling_activation = (\<lambda>t. t),
       scaling_activation_None = Inr None,
       rotation_activation = (\<lambda>t. t),
       rotation_activation_None = Inr None,
       opacity_activation = (\<lambda>t. t) \<rparr>"

definition example_exp_model :: gaussian_model where
  "example_exp_model =
     example_model
       \<lparr> scaling_activation := map (\<lambda>(x, y, z). (exp x, exp y, exp z)),
         scaling_activation_None :=
           Inl ''TypeError: exp(): argument input must be Tensor, not NoneType'',
         rotation_activation_None :=
           Inl ''AttributeError: NoneType object has no attribute norm'' \<rparr>"

definition example_env :: env where
  "example_env =
     \<lparr> retain_grad = Inl ''no grad'',
       eval_sh = (\<lambda>deg view dirs. Inr (map (\<lambda>(x, y, z). (x - 1.7, y, z)) dirs)),
       rasterizer = (\<lambda>s a. Inr ([], map (\<lambda>_. 1) (means3D a), [])) \<rparr>"

definition example_pipe :: pipe where
  "example_pipe =
     \<lparr> debug = False, compute_cov3D_python = False, convert_SHs_python = True \<rparr>"

text \<open>
  A scene of two primitives, at (1, 0, 0) and at the origin; a batch of 100 rows and a
  marker descriptor of 8 markers; a descriptor of a single marker.
\<close>

definition example_scene2 :: gaussian_model where
  "example_scene2 =
     example_model
       \<lparr> get_xyz := [(1, 0, 0), (0, 0, 0)],
         raw_opacity := [0, 1],
         raw_scaling := [(0, 0, 0), (1, 1, 1)],
         raw_rotation := [(1, 0, 0, 0), (0, 1, 0, 0)],
         get_features := Sh_tensor 1 [[(0, 0, 0)], [(1, 1, 1)]] \<rparr>"

definition example_scene_batch :: batch where
  "example_scene_batch =
     \<lparr> means3D_final = replicate 100 (1, 0, 0),
       screen_means2D = replicate 100 (0, 0, 0),
       shs_final = Sh_tensor 1 (replicate 100 [(0, 0, 0)]),
       opacity = replicate 100 0.5,
       scales_final = replicate 100 (1, 1, 1),
       rotations_final = replicate 100 (1, 0, 0, 0) \<rparr>"

definition example_markers :: cams where
  "example_markers =
     \<lparr> show_cameras = True, xyzs = replicate 8 (0, 0, 2), qs = replicate 8 (1, 0, 0, 0),
       scale = (0.1, 0.2, 0.3), show_scene = True \<rparr>"

definition example_one_marker :: cams where
  "example_one_marker =
     \<lparr> show_cameras = True, xyzs = [(0, 0, 0)], qs = [(1, 0, 0, 0)],
       scale = (1, 1, 1), show_scene = True \<rparr>"

section \<open>Running a computation\<close>

lemma run_simps:
  "fst (ok x) = []" "snd (ok x) = Inr x" "fst (raise er) = []" "snd (raise er) = Inl er"
  by (simp_all add: ok_def raise_def)

lemma bind_run_ok: "bind_run (ok x) f = f x"
  by (simp add: bind_run_def ok_def split: prod.splits)

lemma bind_run_raise: "bind_run (raise er) f = raise er"
  by (simp add: bind_run_def raise_def)

lemma fst_bind_run:
  "fst (bind_run m f) = fst m @ (case snd m of Inl er \<Rightarrow> [] | Inr x \<Rightarrow> fst (f x))"
  by (cases m) (auto simp: bind_run_def split: sum.splits prod.splits)

lemma snd_bind_run:
  "snd (bind_run m f) = (case snd m of Inl er \<Rightarrow> Inl er | Inr x \<Rightarrow> snd (f x))"
  by (cases m) (auto simp: bind_run_def split: sum.splits prod.splits)

lemma rasterizer_args_append:
  "rasterizer_args (xs @ ys) = rasterizer_args xs @ rasterizer_args ys"
  by (induction xs rule: rasterizer_args.induct) simp_all

lemma rasterizer_args_bind:
  "rasterizer_args (fst (bind_run m f)) =
     rasterizer_args (fst m) @
       (case snd m of Inl er \<Rightarrow> [] | Inr x \<Rightarrow> rasterizer_args (fst (f x)))"
  by (cases m) (auto simp: bind_run_def rasterizer_args_append split: sum.splits prod.splits)

lemma try_retain_grad_eq: "try_retain_grad e = ([Retain_grad], Inr ())"
  by (simp add: try_retain_grad_def split: sum.splits)

lemma fst_raster_setup: "fst (raster_setup ct vc pc pp bg sm n) = []"
  by (simp add: raster_setup_def ok_def raise_def split: viewpoint.splits)

lemma apply_activation_simps:
  "apply_activation f on_None (Some t) = ok (Some (f t))"
  "apply_activation f (Inl msg) None = raise (CollaboratorError msg)"
  "apply_activation f (Inr v) None = ok v"
  by (simp_all add: apply_activation_def)

lemma spatial_filter_unfold:
  "spatial_filter b show_radius =
     (let distances = norm_dim1 (means3D_final b);
          mask' = map (\<lambda>d. d < show_radius) distances in
      bind_run (mask_index (means3D_final b) mask') (\<lambda>m3.
      bind_run (mask_index (screen_means2D b) mask') (\<lambda>m2.
      bind_run (mask_index (blocks (shs_final b)) mask') (\<lambda>sh.
      bind_run (mask_index (opacity b) mask') (\<lambda>op.
      bind_run (mask_index (scales_final b) mask') (\<lambda>sc.
      bind_run (mask_index (rotations_final b) mask') (\<lambda>ro.
      ok \<lparr> means3D_final = m3,
           screen_means2D = m2,
           shs_final = Sh_tensor (shape1 (shs_final b)) sh,
           opacity = op,
           scales_final = sc,
           rotations_final = ro \<rparr>)))))))"
  by (simp add: spatial_filter_def filter_arrays_def subscript_def)

lemma filter_arrays_Some:
  "filter_arrays m3 m2 sh op (Some sc) (Some ro) rad =
     spatial_filter
       \<lparr> means3D_final = m3, screen_means2D = m2, shs_final = sh, opacity = op,
         scales_final = sc, rotations_final = ro \<rparr> rad"
  by (simp add: spatial_filter_def)

lemma rasterizer_args_deformation_stage:
  "rasterizer_args (fst (deformation_stage pc stage m s r o' sh t)) = []"
  by (simp add: deformation_stage_def ok_def raise_def external_def)

lemma rasterizer_args_resolve_color:
  "rasterizer_args (fst (resolve_color e vc pc pp oc)) = []"
  by (auto simp: resolve_color_def ok_def raise_def external_def fst_bind_run Let_def
       transpose_view_def center_of_def sub_rows_def rasterizer_args_append
      split: option.splits sum.splits viewpoint.splits)

lemma rasterizer_args_rasterize:
  "rasterizer_args (fst (rasterize e rs a z)) = [a]"
  by (auto simp: rasterize_def fst_bind_run external_def ok_def rasterizer_args_append
      split: sum.splits prod.splits)

lemma fst_apply_activation: "fst (apply_activation f on_None x) = []"
  by (cases x; cases on_None) (simp_all add: apply_activation_simps run_simps)

lemma snd_apply_activation_Some:
  "snd (apply_activation f on_None (Some t)) = Inr (Some (f t))"
  by (simp add: apply_activation_simps run_simps)

text \<open>What the rasterizer of the training path is called with, if it is called.\<close>

lemma rasterizer_args_render:
  "rasterizer_args (fst (render e vc pc pp bg sm oc stage ct)) =
     (case snd (raster_setup ct vc pc pp bg sm (length (get_xyz pc))) of
        Inl er \<Rightarrow> []
      | Inr (rs, t) \<Rightarrow>
         (case snd (deformation_stage pc stage (get_xyz pc)
                 (if compute_cov3D_python pp then None else Some (raw_scaling pc))
                 (if compute_cov3D_python pp then None else Some (raw_rotation pc))
                 (raw_opacity pc) (get_features pc) t) of
            Inl er \<Rightarrow> []
          | Inr (m3f, scf, rof, opf, shf) \<Rightarrow>
             (case (snd (apply_activation (scaling_activation pc)
                           (scaling_activation_None pc) scf),
                    snd (apply_activation (rotation_activation pc)
                           (rotation_activation_None pc) rof),
                    snd (resolve_color e vc pc pp oc)) of
                (Inr sc, Inr ro, Inr col) \<Rightarrow>
                  [\<lparr> means3D = m3f, means2D = zeros_like (get_xyz pc), shs = shf,
                     colors_precomp = col, opacities = opacity_activation pc opf,
                     scales = sc, rotations = ro,
                     cov3D_precomp = (if compute_cov3D_python pp
                        then Some (get_covariance pc sm) else None) \<rparr>]
              | _ \<Rightarrow> [])))"
  by (cases "compute_cov3D_python pp")
     (auto simp add: render_def Let_def rasterizer_args_bind try_retain_grad_eq fst_raster_setup
      fst_apply_activation run_simps rasterizer_args_deformation_stage
      rasterizer_args_resolve_color rasterizer_args_rasterize
      split: sum.splits prod.splits)

section \<open>The colour handed to the rasterizer\<close>

lemma fst_deformation_stage_eval:
  "list_ex is_eval_sh (fst (deformation_stage pc stage m s r o' sh t)) = False"
  by (simp add: deformation_stage_def ok_def raise_def external_def)

lemma fst_rasterize_eval: "list_ex is_eval_sh (fst (rasterize e rs a z)) = False"
  by (auto simp: rasterize_def fst_bind_run external_def ok_def split: sum.splits prod.splits)

lemma resolve_color_override: "resolve_color e vc pc pp (Some col) = ok (Some col)"
  by (simp add: resolve_color_def)

lemma example_raster_setup:
  "raster_setup None (Camera example_camera) pc pp bg sm n =
     ok (settings_of_camera example_camera pc pp bg sm, replicate n 0)"
  by (simp add: raster_setup_def example_camera_def)

text \<open>
  Claim C6. When \<^verbatim>\<open>override_color\<close> is given, the colour resolution returns it as it
  is without any external call, the training path never calls \<^verbatim>\<open>eval_sh\<close>, and
  every call of the rasterizer gets the override colour as \<^verbatim>\<open>colors_precomp\<close>,
  whatever the coefficients, the camera and the conversion mode are.
\<close>

theorem override_color_verbatim:
  "resolve_color e vc pc pp (Some col) = ([], Inr (Some col)) \<and>
   \<not> list_ex is_eval_sh (fst (render e vc pc pp bg sm (Some col) stage ct)) \<and>
   (\<forall>a \<in> set (rasterizer_args (fst (render e vc pc pp bg sm (Some col) stage ct))).
      colors_precomp a = Some col)"
proof (intro conjI)
  show "resolve_color e vc pc pp (Some col) = ([], Inr (Some col))"
    by (simp add: resolve_color_override ok_def)
  show "\<not> list_ex is_eval_sh (fst (render e vc pc pp bg sm (Some col) stage ct))"
    by (auto simp: render_def Let_def fst_bind_run try_retain_grad_eq fst_raster_setup
        fst_deformation_stage_eval fst_rasterize_eval fst_apply_activation
        resolve_color_override run_simps
        split: sum.splits prod.splits if_splits)
  show "\<forall>a \<in> set (rasterizer_args (fst (render e vc pc pp bg sm (Some col) stage ct))).
      colors_precomp a = Some col"
    by (auto simp: rasterizer_args_render snd_apply_activation_Some resolve_color_override run_simps
        split: sum.splits prod.splits option.splits)
qed

theorem override_color_verbatim_witness:
  "rasterizer_args (fst (render example_env (Camera example_camera) example_model example_pipe
       (0, 0, 0) 1 (Some [(0.2, 0.3, 0.4)]) ''coarse'' None)) =
     [\<lparr> means3D = [(1, 0, 0)], means2D = [(0, 0, 0)], shs = Sh_tensor 1 [[(0, 0, 0)]],
        colors_precomp = Some [(0.2, 0.3, 0.4)], opacities = [0],
        scales = Some [(0, 0, 0)], rotations = Some [(1, 0, 0, 0)],
        cov3D_precomp = None \<rparr>] \<and>
   \<not> list_ex is_eval_sh (fst (render example_env (Camera example_camera) example_model
       example_pipe (0, 0, 0) 1 (Some [(0.2, 0.3, 0.4)]) ''coarse'' None))"
  using override_color_verbatim [of example_env "Camera example_camera" example_model
      example_pipe "[(0.2, 0.3, 0.4)]" "(0, 0, 0)" 1 "''coarse''" None]
  by (simp add: rasterizer_args_render snd_apply_activation_Some example_raster_setup run_simps deformation_stage_def
      resolve_color_override example_model_def example_pipe_def zeros_like_def)

section \<open>The deformation stage\<close>

lemma deformation_stage_coarse:
  "substring_in ''coarse'' stage \<Longrightarrow>
     deformation_stage pc stage m s r o' sh t = ok (m, s, r, o', sh)"
  by (simp add: deformation_stage_def)

lemma deformation_stage_unsupported:
  "\<not> substring_in ''coarse'' stage \<Longrightarrow> \<not> substring_in ''fine'' stage \<Longrightarrow>
     deformation_stage pc stage m s r o' sh t = raise NotImplementedError"
  by (simp add: deformation_stage_def)

lemma fst_mask_index: "fst (mask_index t m) = []"
  by (simp add: mask_index_def run_simps)

lemma fst_spatial_filter: "fst (spatial_filter b rad) = []"
  by (simp add: spatial_filter_unfold Let_def fst_bind_run fst_mask_index run_simps
      split: sum.splits)

lemma fst_subscript: "fst (subscript t m) = []"
  by (cases t) (simp_all add: subscript_def fst_mask_index run_simps)

lemma fst_filter_arrays: "fst (filter_arrays m3 m2 sh op sc ro rad) = []"
  by (simp add: filter_arrays_def Let_def fst_bind_run fst_mask_index fst_subscript run_simps
      split: sum.splits)

lemma snd_filter_arrays_None:
  "snd (filter_arrays m3 m2 sh op None ro rad) \<noteq> Inr b"
  "snd (filter_arrays m3 m2 sh op sc None rad) \<noteq> Inr b"
  by (auto simp: filter_arrays_def Let_def snd_bind_run subscript_def run_simps
      split: sum.splits)

lemma snd_filter_arrays_Inr:
  "(snd (filter_arrays m3 m2 sh op sca roa rad) = Inr b) =
     (\<exists>sc ro. sca = Some sc \<and> roa = Some ro \<and>
        snd (spatial_filter
              \<lparr> means3D_final = m3, screen_means2D = m2, shs_final = sh, opacity = op,
                scales_final = sc, rotations_final = ro \<rparr> rad) = Inr b)"
  by (cases sca; cases roa) (simp_all add: snd_filter_arrays_None filter_arrays_Some)

lemma fst_compose_markers: "fst (compose_markers b cp) = []"
  by (simp add: compose_markers_def Let_def fst_bind_run cat_sh_def run_simps
      split: option.splits sum.splits)

lemma rasterizer_args_render_no_train:
  "rasterizer_args (fst (render_no_train e vc pc pp bg sm stage ct cp rad)) =
     (case vc of
        Panoptic_dict s t \<Rightarrow> []
      | Camera c \<Rightarrow>
         (case snd (deformation_stage pc stage (get_xyz pc) (Some (raw_scaling pc))
                 (Some (raw_rotation pc)) (raw_opacity pc) (get_features pc)
                 (replicate (length (get_xyz pc)) (time c))) of
            Inl er \<Rightarrow> []
          | Inr (m3f, scf, rof, opf, shf) \<Rightarrow>
             (case (snd (apply_activation (scaling_activation pc)
                           (scaling_activation_None pc) scf),
                    snd (apply_activation (rotation_activation pc)
                           (rotation_activation_None pc) rof)) of
                (Inr (Some sc), Inr (Some ro)) \<Rightarrow>
                  (case snd (spatial_filter
                       \<lparr> means3D_final = m3f, screen_means2D = zeros_like (get_xyz pc),
                         shs_final = shf, opacity = opacity_activation pc opf,
                         scales_final = sc, rotations_final = ro \<rparr> rad) of
                     Inl er \<Rightarrow> []
                   | Inr b1 \<Rightarrow>
                      (case snd (compose_markers b1 cp) of
                         Inl er \<Rightarrow> []
                       | Inr b2 \<Rightarrow> [batch_args b2 None None]))
              | _ \<Rightarrow> [])))"
  by (auto simp add: render_no_train_def Let_def rasterizer_args_bind
      fst_apply_activation run_simps rasterizer_args_deformation_stage
      fst_filter_arrays fst_compose_markers rasterizer_args_rasterize
      filter_arrays_Some snd_filter_arrays_None
      split: sum.splits prod.splits option.splits viewpoint.splits)

lemma fst_deformation_stage_coarse:
  "substring_in ''coarse'' stage \<Longrightarrow> fst (deformation_stage pc stage m s r o' sh t) = []"
  by (simp add: deformation_stage_coarse run_simps)

lemma fst_rasterize: "fst (rasterize e rs a z) = [Rasterizer_call rs a]"
  by (auto simp: rasterize_def fst_bind_run external_def ok_def split: sum.splits prod.splits)

lemma deformation_free_resolve_color:
  "list_ex is_deformation (fst (resolve_color e vc pc pp oc)) = False"
  by (auto simp: resolve_color_def ok_def raise_def external_def fst_bind_run Let_def
       transpose_view_def center_of_def sub_rows_def
      split: option.splits sum.splits viewpoint.splits)

lemma render_coarse_no_deformation:
  "substring_in ''coarse'' stage \<Longrightarrow>
     \<not> list_ex is_deformation (fst (render e vc pc pp bg sm oc stage ct))"
  by (auto simp: render_def Let_def fst_bind_run try_retain_grad_eq fst_raster_setup
        fst_deformation_stage_coarse fst_rasterize fst_apply_activation
        deformation_free_resolve_color run_simps
        split: sum.splits prod.splits if_splits)

lemma render_no_train_coarse_no_deformation:
  "substring_in ''coarse'' stage \<Longrightarrow>
     \<not> list_ex is_deformation (fst (render_no_train e vc pc pp bg sm stage ct cp rad))"
  by (auto simp: render_no_train_def Let_def fst_bind_run
        fst_deformation_stage_coarse fst_rasterize fst_apply_activation
        fst_spatial_filter fst_filter_arrays fst_compose_markers run_simps
        split: sum.splits prod.splits if_splits viewpoint.splits)

lemma pure_run_Inr:
  assumes "fst m = []"
  shows "(Inr x = snd m) = (m = ([], Inr x))" and "(snd m = Inr x) = (m = ([], Inr x))"
  using assms by (cases m; auto)+

text \<open>
  Claim C1. For a stage that contains \<^verbatim>\<open>"coarse"\<close> the stage selection returns its
  five input arrays unchanged and makes no external call; neither entry point calls the
  deformation network; the rasterizer of the training path receives the model's positions
  and coefficients, the activation of the model's raw opacity and, when no covariance is
  requested, the activations of the model's raw scaling and rotation (with a requested
  covariance both are \<^verbatim>\<open>None\<close> after the stage, and the rasterizer receives what the
  two activations return for \<^verbatim>\<open>None\<close>); and in the preview path the arrays handed to
  the spatial filter are those same arrays.
\<close>

theorem coarse_stage_identity:
  assumes "substring_in ''coarse'' stage"
  shows "deformation_stage pc stage m s r o' sh t = ([], Inr (m, s, r, o', sh)) \<and>
    \<not> list_ex is_deformation (fst (render e vc pc pp bg sm oc stage ct)) \<and>
    \<not> list_ex is_deformation (fst (render_no_train e vc pc pp bg sm stage ct cp rad)) \<and>
    (\<forall>a \<in> set (rasterizer_args (fst (render e vc pc pp bg sm oc stage ct))).
       means3D a = get_xyz pc \<and> shs a = get_features pc \<and>
       opacities a = opacity_activation pc (raw_opacity pc) \<and>
       (\<not> compute_cov3D_python pp \<longrightarrow>
          scales a = Some (scaling_activation pc (raw_scaling pc)) \<and>
          rotations a = Some (rotation_activation pc (raw_rotation pc))) \<and>
       (compute_cov3D_python pp \<longrightarrow>
          scaling_activation_None pc = Inr (scales a) \<and>
          rotation_activation_None pc = Inr (rotations a))) \<and>
    (\<forall>a \<in> set (rasterizer_args (fst (render_no_train e vc pc pp bg sm stage ct cp rad))).
       \<exists>b1 b2.
         spatial_filter
           \<lparr> means3D_final = get_xyz pc, screen_means2D = zeros_like (get_xyz pc),
             shs_final = get_features pc, opacity = opacity_activation pc (raw_opacity pc),
             scales_final = scaling_activation pc (raw_scaling pc),
             rotations_final = rotation_activation pc (raw_rotation pc) \<rparr> rad
           = ([], Inr b1) \<and>
         compose_markers b1 cp = ([], Inr b2) \<and>
         a = batch_args b2 None None)"
proof (intro conjI)
  show "deformation_stage pc stage m s r o' sh t = ([], Inr (m, s, r, o', sh))"
    using assms by (simp add: deformation_stage_coarse ok_def)
  show "\<not> list_ex is_deformation (fst (render e vc pc pp bg sm oc stage ct))"
    using assms by (rule render_coarse_no_deformation)
  show "\<not> list_ex is_deformation (fst (render_no_train e vc pc pp bg sm stage ct cp rad))"
    using assms by (rule render_no_train_coarse_no_deformation)
  show "\<forall>a \<in> set (rasterizer_args (fst (render e vc pc pp bg sm oc stage ct))).
       means3D a = get_xyz pc \<and> shs a = get_features pc \<and>
       opacities a = opacity_activation pc (raw_opacity pc) \<and>
       (\<not> compute_cov3D_python pp \<longrightarrow>
          scales a = Some (scaling_activation pc (raw_scaling pc)) \<and>
          rotations a = Some (rotation_activation pc (raw_rotation pc))) \<and>
       (compute_cov3D_python pp \<longrightarrow>
          scaling_activation_None pc = Inr (scales a) \<and>
          rotation_activation_None pc = Inr (rotations a))"
    using assms
    by (cases "scaling_activation_None pc"; cases "rotation_activation_None pc")
       (auto simp: rasterizer_args_render snd_apply_activation_Some deformation_stage_coarse run_simps
          apply_activation_simps
        split: sum.splits prod.splits option.splits if_splits)
  show "\<forall>a \<in> set (rasterizer_args (fst (render_no_train e vc pc pp bg sm stage ct cp rad))).
       \<exists>b1 b2.
         spatial_filter
           \<lparr> means3D_final = get_xyz pc, screen_means2D = zeros_like (get_xyz pc),
             shs_final = get_features pc, opacity = opacity_activation pc (raw_opacity pc),
             scales_final = scaling_activation pc (raw_scaling pc),
             rotations_final = rotation_activation pc (raw_rotation pc) \<rparr> rad
           = ([], Inr b1) \<and>
         compose_markers b1 cp = ([], Inr b2) \<and>
         a = batch_args b2 None None"
    using assms
    by (auto simp: rasterizer_args_render_no_train snd_apply_activation_Some deformation_stage_coarse run_simps
        apply_activation_simps
        pure_run_Inr [OF fst_spatial_filter] pure_run_Inr [OF fst_compose_markers]
        split: sum.splits prod.splits option.splits viewpoint.splits)
qed


theorem coarse_stage_identity_witness:
  "substring_in ''coarse'' ''coarse'' \<and>
   rasterizer_args (fst (render example_env (Camera example_camera) example_model
       (example_pipe\<lparr>convert_SHs_python := False\<rparr>) (0, 0, 0) 1 None ''coarse'' None)) =
     [\<lparr> means3D = [(1, 0, 0)], means2D = [(0, 0, 0)], shs = Sh_tensor 1 [[(0, 0, 0)]],
        colors_precomp = None, opacities = [0],
        scales = Some [(0, 0, 0)], rotations = Some [(1, 0, 0, 0)],
        cov3D_precomp = None \<rparr>] \<and>
   rasterizer_args (fst (render_no_train example_env (Camera example_camera) example_model
       (example_pipe\<lparr>convert_SHs_python := False\<rparr>) (0, 0, 0) 1 ''coarse'' None None 2)) =
     [\<lparr> means3D = [(1, 0, 0)], means2D = [(0, 0, 0)], shs = Sh_tensor 1 [[(0, 0, 0)]],
        colors_precomp = None, opacities = [0],
        scales = Some [(0, 0, 0)], rotations = Some [(1, 0, 0, 0)],
        cov3D_precomp = None \<rparr>] \<and>
   means3D \<lparr> means3D = [(1, 0, 0)], means2D = [(0, 0, 0)], shs = Sh_tensor 1 [[(0, 0, 0)]],
        colors_precomp = None, opacities = [0],
        scales = Some [(0, 0, 0)], rotations = Some [(1, 0, 0, 0)],
        cov3D_precomp = None \<rparr> = get_xyz example_model"
  using coarse_stage_identity [where stage = "''coarse''" and pc = example_model
      and e = example_env and vc = "Camera example_camera"
      and pp = "example_pipe\<lparr>convert_SHs_python := False\<rparr>" and bg = "(0, 0, 0)" and sm = 1
      and oc = None and ct = None and cp = None and rad = 2]
  by (simp add: rasterizer_args_render rasterizer_args_render_no_train
      snd_apply_activation_Some example_raster_setup
      run_simps deformation_stage_def resolve_color_def example_model_def example_pipe_def
      zeros_like_def spatial_filter_unfold mask_index_def norm_dim1_def Let_def bind_run_ok
      compose_markers_def batch_args_def)

lemma snd_raster_setup_ne:
  "snd (raster_setup ct vc pc pp bg sm n) \<noteq> Inl NotImplementedError"
  by (simp add: raster_setup_def run_simps split: viewpoint.splits)

lemma snd_deformation_stage_ne:
  "substring_in ''coarse'' stage \<or> substring_in ''fine'' stage \<Longrightarrow>
     snd (deformation_stage pc stage m s r o' sh t) \<noteq> Inl NotImplementedError"
  by (auto simp: deformation_stage_def run_simps external_def split: sum.splits)

lemma snd_apply_activation_ne:
  "snd (apply_activation f on_None x) \<noteq> Inl NotImplementedError"
  by (cases x; cases on_None) (simp_all add: apply_activation_simps run_simps)

lemma snd_resolve_color_ne: "snd (resolve_color e vc pc pp oc) \<noteq> Inl NotImplementedError"
  by (auto simp: resolve_color_def run_simps external_def snd_bind_run Let_def
       transpose_view_def center_of_def sub_rows_def
      split: option.splits sum.splits viewpoint.splits)

lemma snd_rasterize_ne: "snd (rasterize e rs a z) \<noteq> Inl NotImplementedError"
  by (auto simp: rasterize_def snd_bind_run external_def run_simps
      split: sum.splits prod.splits)

lemma snd_mask_index_ne: "snd (mask_index t m) \<noteq> Inl NotImplementedError"
  by (simp add: mask_index_def run_simps)

lemma snd_filter_arrays_ne:
  "snd (filter_arrays m3 m2 sh op sc ro rad) \<noteq> Inl NotImplementedError"
  by (cases sc; cases ro)
     (auto simp: filter_arrays_def Let_def snd_bind_run snd_mask_index_ne subscript_def
        run_simps
      split: sum.splits)

lemma snd_spatial_filter_ne: "snd (spatial_filter b rad) \<noteq> Inl NotImplementedError"
  by (auto simp: spatial_filter_unfold Let_def snd_bind_run snd_mask_index_ne run_simps
      split: sum.splits)

lemma snd_compose_markers_ne: "snd (compose_markers b cp) \<noteq> Inl NotImplementedError"
  by (simp add: compose_markers_def Let_def snd_bind_run cat_sh_def run_simps
      split: option.splits sum.splits)

lemma render_supported_stage:
  "substring_in ''coarse'' stage \<or> substring_in ''fine'' stage \<Longrightarrow>
     snd (render e vc pc pp bg sm oc stage ct) \<noteq> Inl NotImplementedError"
  using snd_raster_setup_ne [of ct vc pc pp bg sm "length (get_xyz pc)"]
    snd_resolve_color_ne [of e vc pc pp oc]
  by (auto simp: render_def Let_def snd_bind_run try_retain_grad_eq
      snd_deformation_stage_ne snd_apply_activation_ne snd_rasterize_ne
      split: sum.splits prod.splits if_splits)

lemma render_no_train_supported_stage:
  "substring_in ''coarse'' stage \<or> substring_in ''fine'' stage \<Longrightarrow>
     snd (render_no_train e vc pc pp bg sm stage ct cp rad) \<noteq> Inl NotImplementedError"
  by (auto simp: render_no_train_def Let_def snd_bind_run run_simps
      snd_deformation_stage_ne snd_apply_activation_ne snd_rasterize_ne
      snd_filter_arrays_ne snd_compose_markers_ne
      split: sum.splits prod.splits if_splits viewpoint.splits)

lemma render_unsupported_stage:
  assumes "\<not> substring_in ''coarse'' stage" "\<not> substring_in ''fine'' stage"
  shows "rasterizer_args (fst (render e vc pc pp bg sm oc stage ct)) = []"
    and "isl (snd (render e vc pc pp bg sm oc stage ct))"
    and "camera_fits ct vc \<Longrightarrow>
          render e vc pc pp bg sm oc stage ct = ([Retain_grad], Inl NotImplementedError)"
  using assms
  by (auto simp: rasterizer_args_render snd_apply_activation_Some render_def Let_def try_retain_grad_eq
      deformation_stage_unsupported run_simps snd_bind_run bind_run_raise bind_run_ok
      raster_setup_def camera_fits_def bind_run_def raise_def ok_def
      split: sum.splits prod.splits viewpoint.splits)

lemma render_no_train_unsupported_stage:
  assumes "\<not> substring_in ''coarse'' stage" "\<not> substring_in ''fine'' stage"
  shows "rasterizer_args (fst (render_no_train e vc pc pp bg sm stage ct cp rad)) = []"
    and "isl (snd (render_no_train e vc pc pp bg sm stage ct cp rad))"
    and "is_camera_object vc \<Longrightarrow>
          render_no_train e vc pc pp bg sm stage ct cp rad = ([], Inl NotImplementedError)"
  using assms
  by (auto simp: rasterizer_args_render_no_train snd_apply_activation_Some render_no_train_def Let_def
      deformation_stage_unsupported run_simps snd_bind_run bind_run_raise bind_run_ok
      bind_run_def raise_def ok_def
      split: sum.splits prod.splits viewpoint.splits)

text \<open>
  Claim C2. For a stage that contains neither \<^verbatim>\<open>"coarse"\<close> nor \<^verbatim>\<open>"fine"\<close> both
  entry points end with an exception without calling the rasterizer, and for a viewpoint
  of the expected kind the exception is \<^verbatim>\<open>NotImplementedError\<close>, raised by the stage
  selection (in the training path after the attempt to retain gradients, in the preview
  path before any external call). For a stage that contains one of the two words no
  entry point ends with the \<^verbatim>\<open>NotImplementedError\<close> of the stage selection.
\<close>

theorem unsupported_stage_raises:
  "(\<not> substring_in ''coarse'' stage \<and> \<not> substring_in ''fine'' stage \<longrightarrow>
      rasterizer_args (fst (render e vc pc pp bg sm oc stage ct)) = [] \<and>
      isl (snd (render e vc pc pp bg sm oc stage ct)) \<and>
      (camera_fits ct vc \<longrightarrow>
         render e vc pc pp bg sm oc stage ct = ([Retain_grad], Inl NotImplementedError)) \<and>
      rasterizer_args (fst (render_no_train e vc pc pp bg sm stage ct cp rad)) = [] \<and>
      isl (snd (render_no_train e vc pc pp bg sm stage ct cp rad)) \<and>
      (is_camera_object vc \<longrightarrow>
         render_no_train e vc pc pp bg sm stage ct cp rad = ([], Inl NotImplementedError))) \<and>
   (substring_in ''coarse'' stage \<or> substring_in ''fine'' stage \<longrightarrow>
      snd (render e vc pc pp bg sm oc stage ct) \<noteq> Inl NotImplementedError \<and>
      snd (render_no_train e vc pc pp bg sm stage ct cp rad) \<noteq> Inl NotImplementedError)"
  by (intro conjI impI; (elim conjE)?;
      (rule render_unsupported_stage render_no_train_unsupported_stage
         render_supported_stage render_no_train_supported_stage; assumption))

theorem unsupported_stage_raises_witness:
  "\<not> substring_in ''coarse'' ''warm'' \<and> \<not> substring_in ''fine'' ''warm'' \<and>
   camera_fits None (Camera example_camera) \<and> is_camera_object (Camera example_camera) \<and>
   render example_env (Camera example_camera) example_model example_pipe (0, 0, 0) 1 None
     ''warm'' None = ([Retain_grad], Inl NotImplementedError) \<and>
   render_no_train example_env (Camera example_camera) example_model example_pipe (0, 0, 0) 1
     ''warm'' None None 2 = ([], Inl NotImplementedError) \<and>
   (substring_in ''coarse'' ''coarse_x'' \<or> substring_in ''fine'' ''coarse_x'') \<and>
   snd (render example_env (Camera example_camera) example_model example_pipe (0, 0, 0) 1 None
     ''coarse_x'' None) \<noteq> Inl NotImplementedError"
  using unsupported_stage_raises [where stage = "''warm''" and e = example_env
      and vc = "Camera example_camera" and pc = example_model and pp = example_pipe
      and bg = "(0, 0, 0)" and sm = 1 and oc = None and ct = None and cp = None and rad = 2]
    unsupported_stage_raises [where stage = "''coarse_x''" and e = example_env
      and vc = "Camera example_camera" and pc = example_model and pp = example_pipe
      and bg = "(0, 0, 0)" and sm = 1 and oc = None and ct = None and cp = None and rad = 2]
  by (simp add: camera_fits_def)

section \<open>Retaining gradients on the screen-space anchor\<close>

lemma resolve_color_retain_grad:
  "resolve_color (e\<lparr>retain_grad := r\<rparr>) vc pc pp oc = resolve_color e vc pc pp oc"
  by (cases oc) (simp_all add: resolve_color_def Let_def)

lemma rasterize_retain_grad:
  "rasterize (e\<lparr>retain_grad := r\<rparr>) rs a z = rasterize e rs a z"
  by (simp add: rasterize_def)

text \<open>
  Claim C8. The attempt to retain gradients always continues normally, and neither entry
  point depends on its outcome: with an environment in which \<^verbatim>\<open>retain_grad\<close> raises
  (or returns) the trace and the result, value or exception, are the same as with any
  other outcome. The preview path does not make the call at all.
\<close>

theorem retain_grad_failure_swallowed:
  "try_retain_grad e = ([Retain_grad], Inr ()) \<and>
   render (e\<lparr>retain_grad := r\<rparr>) vc pc pp bg sm oc stage ct =
     render e vc pc pp bg sm oc stage ct \<and>
   render_no_train (e\<lparr>retain_grad := r\<rparr>) vc pc pp bg sm stage ct cp rad =
     render_no_train e vc pc pp bg sm stage ct cp rad"
  by (simp add: try_retain_grad_eq render_def render_no_train_def resolve_color_retain_grad
      rasterize_retain_grad)

theorem retain_grad_failure_swallowed_witness:
  "retain_grad example_env = Inl ''no grad'' \<and>
   render example_env (Camera example_camera) example_model example_pipe (0, 0, 0) 1
       (Some [(0.2, 0.3, 0.4)]) ''coarse'' None =
     render (example_env\<lparr>retain_grad := Inr ()\<rparr>) (Camera example_camera) example_model
       example_pipe (0, 0, 0) 1 (Some [(0.2, 0.3, 0.4)]) ''coarse'' None \<and>
   snd (render example_env (Camera example_camera) example_model example_pipe (0, 0, 0) 1
       (Some [(0.2, 0.3, 0.4)]) ''coarse'' None) =
     Inr \<lparr> render_image = [], viewspace_points = [(0, 0, 0)], visibility_filter = [True],
           radii = [1], depth = [] \<rparr>"
  using retain_grad_failure_swallowed [where e = example_env and r = "Inr ()"
      and vc = "Camera example_camera" and pc = example_model and pp = example_pipe
      and bg = "(0, 0, 0)" and sm = 1 and oc = "Some [(0.2, 0.3, 0.4)]"
      and stage = "''coarse''" and ct = None]
  by (simp add: render_def Let_def try_retain_grad_eq example_raster_setup snd_bind_run
      run_simps deformation_stage_def resolve_color_override apply_activation_simps
      rasterize_def external_def example_model_def example_pipe_def example_env_def
      zeros_like_def)

section \<open>Colours from spherical harmonics\<close>

lemma fst_transpose_view: "fst (transpose_view f k) = []"
  by (simp add: transpose_view_def run_simps)

lemma fst_center_of: "fst (center_of vc) = []"
  by (simp add: center_of_def run_simps split: viewpoint.splits)

lemma fst_sub_rows: "fst (sub_rows a b) = []"
  by (simp add: sub_rows_def run_simps)

lemma fst_external: "fst (external ev r) = [ev]"
  by (simp add: external_def)


text \<open>The colour resolution when spherical harmonics are converted in Python.\<close>

lemma resolve_color_sh:
  assumes "convert_SHs_python pp"
  shows "resolve_color e vc pc pp None =
     (case snd (transpose_view (get_features pc) ((max_sh_degree pc + 1)^2)) of
        Inl er \<Rightarrow> ([], Inl er)
      | Inr view \<Rightarrow>
         (case snd (center_of vc) of
            Inl er \<Rightarrow> ([], Inl er)
          | Inr center \<Rightarrow>
             (case snd (sub_rows (get_xyz pc)
                     (replicate (length (blocks (get_features pc))) center)) of
                Inl er \<Rightarrow> ([], Inl er)
              | Inr dir_pp \<Rightarrow>
                 ([Eval_sh_call (active_sh_degree pc) view
                     (map (\<lambda>r. div_row r (norm_row r)) dir_pp)],
                  (case eval_sh e (active_sh_degree pc) view
                       (map (\<lambda>r. div_row r (norm_row r)) dir_pp) of
                     Inl msg \<Rightarrow> Inl (CollaboratorError msg)
                   | Inr sh2rgb \<Rightarrow>
                       Inr (Some (clamp_min (map (\<lambda>r. add_scalar r 0.5) sh2rgb) 0)))))))"
  using assms
  by (auto simp: resolve_color_def Let_def intro!: prod_eqI
      simp: fst_bind_run snd_bind_run fst_transpose_view fst_center_of fst_sub_rows
        fst_external external_def run_simps
      split: sum.splits)

lemma render_trace_rasterized:
  assumes "a \<in> set (rasterizer_args (fst (render e vc pc pp bg sm oc stage ct)))"
  shows "set (fst (resolve_color e vc pc pp oc)) \<subseteq> set (fst (render e vc pc pp bg sm oc stage ct))"
  using assms
  by (cases "compute_cov3D_python pp")
     (auto simp add: render_def Let_def rasterizer_args_bind fst_bind_run try_retain_grad_eq
      fst_raster_setup apply_activation_simps run_simps rasterizer_args_deformation_stage
      rasterizer_args_resolve_color rasterizer_args_rasterize rasterizer_args_append
      fst_apply_activation
      split: sum.splits prod.splits option.splits)

lemma clamp_min_nonneg:
  "\<forall>c \<in> set (clamp_min t 0). \<forall>x \<in> set (components c). 0 \<le> x"
  by (auto simp: clamp_min_def)

text \<open>
  Claim C5. Without an override colour and with the conversion of spherical harmonics in
  Python selected, every call of the rasterizer by the training path gets as
  \<^verbatim>\<open>colors_precomp\<close> the result of the \<^verbatim>\<open>eval_sh\<close> call of that run plus 0.5,
  clamped below at 0; so no component of it is negative. In the example run below an
  evaluation result of -0.7 gives the colour component 0, not -0.2.
\<close>

theorem sh_color_clamped:
  assumes "convert_SHs_python pp"
    and "a \<in> set (rasterizer_args (fst (render e vc pc pp bg sm None stage ct)))"
  shows "\<exists>view dirs sh2rgb.
      Eval_sh_call (active_sh_degree pc) view dirs
        \<in> set (fst (render e vc pc pp bg sm None stage ct)) \<and>
      eval_sh e (active_sh_degree pc) view dirs = Inr sh2rgb \<and>
      colors_precomp a = Some (clamp_min (map (\<lambda>r. add_scalar r 0.5) sh2rgb) 0) \<and>
      (\<forall>c \<in> set (clamp_min (map (\<lambda>r. add_scalar r 0.5) sh2rgb) 0).
         \<forall>x \<in> set (components c). 0 \<le> x)"
proof -
  from assms(2) have "\<exists>col. snd (resolve_color e vc pc pp None) = Inr col \<and>
      colors_precomp a = col"
    by (auto simp: rasterizer_args_render snd_apply_activation_Some split: sum.splits prod.splits option.splits)
  then obtain col where col: "snd (resolve_color e vc pc pp None) = Inr col"
    and a: "colors_precomp a = col"
    by blast
  from col obtain view dirs sh2rgb where
    tr: "fst (resolve_color e vc pc pp None) = [Eval_sh_call (active_sh_degree pc) view dirs]"
    and ev: "eval_sh e (active_sh_degree pc) view dirs = Inr sh2rgb"
    and c: "col = Some (clamp_min (map (\<lambda>r. add_scalar r 0.5) sh2rgb) 0)"
    by (auto simp: resolve_color_sh [OF assms(1)] split: sum.splits)
  from render_trace_rasterized [OF assms(2)] tr
  have "Eval_sh_call (active_sh_degree pc) view dirs
      \<in> set (fst (render e vc pc pp bg sm None stage ct))"
    by simp
  with ev a c clamp_min_nonneg show ?thesis
    by blast
qed


lemma example_resolve_color:
  "resolve_color example_env (Camera example_camera) example_model example_pipe None =
     ([Eval_sh_call 0 [([0], [0], [0])] [(1, 0, 0)]], Inr (Some [(0, 0.5, 0.5)]))"
  by (simp add: resolve_color_sh example_pipe_def example_model_def example_camera_def
      example_env_def transpose_view_def center_of_def sub_rows_def run_simps clamp_min_def)

lemma example_coarse_run:
  "rasterizer_args (fst (render example_env (Camera example_camera) example_model example_pipe
       (0, 0, 0) 1 None ''coarse'' None)) =
     [\<lparr> means3D = [(1, 0, 0)], means2D = [(0, 0, 0)], shs = Sh_tensor 1 [[(0, 0, 0)]],
        colors_precomp = Some [(0, 0.5, 0.5)], opacities = [0],
        scales = Some [(0, 0, 0)], rotations = Some [(1, 0, 0, 0)],
        cov3D_precomp = None \<rparr>]"
  by (simp add: rasterizer_args_render snd_apply_activation_Some example_raster_setup run_simps deformation_stage_def
      example_resolve_color)
     (simp add: example_model_def example_pipe_def zeros_like_def)

lemma example_deformation_fine:
  "deformation_stage example_model ''fine'' m s r o' sh t =
     ([Deformation_call m s r o' sh t], Inr (map (\<lambda>(x, y, z). (y, x, z)) m, s, r, o', sh))"
  by (simp add: deformation_stage_def external_def example_model_def)

lemma example_model_fields:
  "get_xyz example_model = [(1, 0, 0)]"
  "raw_opacity example_model = [0]"
  "raw_scaling example_model = [(0, 0, 0)]"
  "raw_rotation example_model = [(1, 0, 0, 0)]"
  "get_features example_model = Sh_tensor 1 [[(0, 0, 0)]]"
  "scaling_activation example_model = (\<lambda>t. t)"
  "rotation_activation example_model = (\<lambda>t. t)"
  "scaling_activation_None example_model = Inr None"
  "rotation_activation_None example_model = Inr None"
  "opacity_activation example_model = (\<lambda>t. t)"
  "active_sh_degree example_model = 0"
  "max_sh_degree example_model = 0"
  by (simp_all add: example_model_def)

lemma example_pipe_fields:
  "compute_cov3D_python example_pipe = False"
  "convert_SHs_python example_pipe = True"
  by (simp_all add: example_pipe_def)

lemma example_fine_run:
  "rasterizer_args (fst (render example_env (Camera example_camera) example_model example_pipe
       (0, 0, 0) 1 None ''fine'' None)) =
     [\<lparr> means3D = [(0, 1, 0)], means2D = [(0, 0, 0)], shs = Sh_tensor 1 [[(0, 0, 0)]],
        colors_precomp = Some [(0, 0.5, 0.5)], opacities = [0],
        scales = Some [(0, 0, 0)], rotations = Some [(1, 0, 0, 0)],
        cov3D_precomp = None \<rparr>]"
  by (simp add: rasterizer_args_render snd_apply_activation_Some example_raster_setup run_simps
      example_deformation_fine example_resolve_color example_model_fields
      example_pipe_fields zeros_like_def)

theorem sh_color_clamped_witness:
  "convert_SHs_python example_pipe \<and>
   rasterizer_args (fst (render example_env (Camera example_camera) example_model example_pipe
       (0, 0, 0) 1 None ''coarse'' None)) =
     [\<lparr> means3D = [(1, 0, 0)], means2D = [(0, 0, 0)], shs = Sh_tensor 1 [[(0, 0, 0)]],
        colors_precomp = Some [(0, 0.5, 0.5)], opacities = [0],
        scales = Some [(0, 0, 0)], rotations = Some [(1, 0, 0, 0)],
        cov3D_precomp = None \<rparr>] \<and>
   eval_sh example_env 0 [([0], [0], [0])] [(1, 0, 0)] = Inr [(- 0.7, 0, 0)] \<and>
   clamp_min (map (\<lambda>r. add_scalar r 0.5) [(- 0.7, 0, 0)]) 0 = [(0, 0.5, 0.5)] \<and>
   (\<exists>view dirs sh2rgb.
      eval_sh example_env (active_sh_degree example_model) view dirs = Inr sh2rgb \<and>
      Some [(0, 0.5, 0.5)] = Some (clamp_min (map (\<lambda>r. add_scalar r 0.5) sh2rgb) 0))"
proof -
  have h1: "convert_SHs_python example_pipe"
    by (simp add: example_pipe_def)
  have h2: "\<lparr> means3D = [(1, 0, 0)], means2D = [(0, 0, 0)], shs = Sh_tensor 1 [[(0, 0, 0)]],
        colors_precomp = Some [(0, 0.5, 0.5)], opacities = [0],
        scales = Some [(0, 0, 0)], rotations = Some [(1, 0, 0, 0)],
        cov3D_precomp = None \<rparr>
      \<in> set (rasterizer_args (fst (render example_env (Camera example_camera) example_model
           example_pipe (0, 0, 0) 1 None ''coarse'' None)))"
    by (simp add: example_coarse_run)
  have h3: "eval_sh example_env 0 [([0], [0], [0])] [(1, 0, 0)] = Inr [(- 0.7, 0, 0)]"
    by (simp add: example_env_def)
  have h4: "clamp_min (map (\<lambda>r. add_scalar r 0.5) [(- 0.7, 0, 0)]) 0 = [(0, 0.5, 0.5)]"
    by (simp add: clamp_min_def)
  from sh_color_clamped [OF h1 h2] h1 h3 h4 example_coarse_run show ?thesis
    by auto
qed

section \<open>Covariance or scale and rotation\<close>


text \<open>
  Claim C7. The claim is that a requested precomputed covariance reaches the rasterizer
  with scale and rotation absent. In the code the scale and the rotation are set to
  \<^verbatim>\<open>None\<close> (lines 68 to 72) and then handed to the scaling activation (line 93).
  Whenever the scaling activation raises on \<^verbatim>\<open>None\<close>, as the exponential does, a
  requested covariance and a stage containing \<^verbatim>\<open>"coarse"\<close> end the training path
  with the exception of the activation, after the attempt to retain gradients, and the
  rasterizer is never called.
\<close>

theorem render_cov3D_coarse_rejecting_activation:
  assumes "compute_cov3D_python pp" "substring_in ''coarse'' stage" "camera_fits ct vc"
    and "scaling_activation_None pc = Inl msg"
  shows "render e vc pc pp bg sm oc stage ct = ([Retain_grad], Inl (CollaboratorError msg)) \<and>
         rasterizer_args (fst (render e vc pc pp bg sm oc stage ct)) = []"
proof -
  from assms(3) obtain s where s: "raster_setup ct vc pc pp bg sm (length (get_xyz pc)) = ok s"
    by (auto simp: camera_fits_def raster_setup_def split: viewpoint.splits)
  have "render e vc pc pp bg sm oc stage ct = ([Retain_grad], Inl (CollaboratorError msg))"
    using assms(1,2,4) s
    by (simp add: render_def Let_def try_retain_grad_eq bind_run_ok deformation_stage_def
        apply_activation_simps bind_run_raise split: prod.splits)
       (simp add: bind_run_def raise_def)
  then show ?thesis
    by simp
qed

text \<open>
  The exponential scaling activation rejects \<^verbatim>\<open>None\<close>: the example scene with a
  requested covariance and the stage \<^verbatim>\<open>"coarse"\<close> ends with its exception.
\<close>

theorem render_cov3D_coarse_rejecting_activation_witness:
  "compute_cov3D_python (example_pipe\<lparr>compute_cov3D_python := True\<rparr>) \<and>
   substring_in ''coarse'' ''coarse'' \<and>
   camera_fits None (Camera example_camera) \<and>
   scaling_activation_None example_exp_model =
     Inl ''TypeError: exp(): argument input must be Tensor, not NoneType'' \<and>
   render example_env (Camera example_camera) example_exp_model
     (example_pipe\<lparr>compute_cov3D_python := True\<rparr>) (0, 0, 0) 1 None ''coarse'' None =
     ([Retain_grad],
      Inl (CollaboratorError ''TypeError: exp(): argument input must be Tensor, not NoneType'')) \<and>
   rasterizer_args (fst (render example_env (Camera example_camera) example_exp_model
     (example_pipe\<lparr>compute_cov3D_python := True\<rparr>) (0, 0, 0) 1 None ''coarse'' None)) = []"
proof -
  have h1: "compute_cov3D_python (example_pipe\<lparr>compute_cov3D_python := True\<rparr>)"
    by simp
  have h2: "substring_in ''coarse'' ''coarse''"
    by simp
  have h3: "camera_fits None (Camera example_camera)"
    by (simp add: camera_fits_def)
  have h4: "scaling_activation_None example_exp_model =
      Inl ''TypeError: exp(): argument input must be Tensor, not NoneType''"
    by (simp add: example_exp_model_def)
  from render_cov3D_coarse_rejecting_activation [OF h1 h2 h3 h4,
      of example_env "(0, 0, 0)" 1 None] h1 h2 h3 h4
  show ?thesis by simp
qed

text \<open>
  The covariance handed to the rasterizer is present exactly when it was requested. An
  activation that lets \<^verbatim>\<open>None\<close> through, such as the identity of the example scene,
  gives the rasterizer the covariance with scale and rotation absent; when the covariance
  is not requested, scale and rotation are present.
\<close>

lemma render_passes_cov3D:
  "\<forall>a \<in> set (rasterizer_args (fst (render e vc pc pp bg sm oc stage ct))).
     (cov3D_precomp a \<noteq> None) = compute_cov3D_python pp"
  by (auto simp: rasterizer_args_render snd_apply_activation_Some split: sum.splits prod.splits option.splits)

lemma render_cov3D_coarse_passing_activation:
  assumes "compute_cov3D_python pp" "substring_in ''coarse'' stage"
    and "scaling_activation_None pc = Inr None" "rotation_activation_None pc = Inr None"
  shows "\<forall>a \<in> set (rasterizer_args (fst (render e vc pc pp bg sm oc stage ct))).
     scales a = None \<and> rotations a = None \<and> cov3D_precomp a = Some (get_covariance pc sm)"
  using assms
  by (auto simp: rasterizer_args_render snd_apply_activation_Some deformation_stage_def run_simps
      apply_activation_simps split: sum.splits prod.splits option.splits)

lemma render_scales_coarse:
  assumes "\<not> compute_cov3D_python pp" "substring_in ''coarse'' stage"
  shows "\<forall>a \<in> set (rasterizer_args (fst (render e vc pc pp bg sm oc stage ct))).
     scales a = Some (scaling_activation pc (raw_scaling pc)) \<and>
     rotations a = Some (rotation_activation pc (raw_rotation pc)) \<and> cov3D_precomp a = None"
  using assms
  by (auto simp: rasterizer_args_render snd_apply_activation_Some deformation_stage_def run_simps
      apply_activation_simps split: sum.splits prod.splits option.splits)


section \<open>What the spherical harmonics are evaluated on\<close>

lemma center_of_simps:
  "center_of (Camera c) = ok (camera_center c)"
  "center_of (Panoptic_dict s t) = raise AttributeError"
  by (simp_all add: center_of_def)

lemma resolve_color_sh_Inr:
  assumes "convert_SHs_python pp" and "snd (resolve_color e vc pc pp None) = Inr col"
  shows "\<exists>c view dir_pp sh2rgb. vc = Camera c \<and>
      transpose_view (get_features pc) ((max_sh_degree pc + 1)^2) = ([], Inr view) \<and>
      sub_rows (get_xyz pc)
        (replicate (length (blocks (get_features pc))) (camera_center c)) = ([], Inr dir_pp) \<and>
      fst (resolve_color e vc pc pp None) =
        [Eval_sh_call (active_sh_degree pc) view (map (\<lambda>r. div_row r (norm_row r)) dir_pp)] \<and>
      eval_sh e (active_sh_degree pc) view (map (\<lambda>r. div_row r (norm_row r)) dir_pp)
        = Inr sh2rgb \<and>
      col = Some (clamp_min (map (\<lambda>r. add_scalar r 0.5) sh2rgb) 0)"
  using assms(2)
  by (cases vc)
     (auto simp: resolve_color_sh [OF assms(1)] center_of_simps run_simps
        pure_run_Inr [OF fst_transpose_view] pure_run_Inr [OF fst_sub_rows]
      split: sum.splits)

text \<open>
  Claim C9. In the training path, without override colour and with the conversion in
  Python, the coefficients and the view directions given to \<^verbatim>\<open>eval_sh\<close> are the
  transposed features of the model and the normalised differences between the model's own
  positions and the camera centre, whatever the stage is and whatever the deformation
  returned; the colour of every rasterizer call is computed from that evaluation. And
  there is an input with a stage containing \<^verbatim>\<open>"fine"\<close> whose deformation moves the
  primitives and for which this colour differs from the one that the evaluation at the
  deformed positions and coefficients gives.
\<close>

theorem sh_evaluated_on_undeformed_model:
  "(convert_SHs_python pp \<and>
    a \<in> set (rasterizer_args (fst (render e vc pc pp bg sm None stage ct))) \<longrightarrow>
      (\<exists>c view dir_pp sh2rgb. vc = Camera c \<and>
         transpose_view (get_features pc) ((max_sh_degree pc + 1)^2) = ([], Inr view) \<and>
         sub_rows (get_xyz pc)
           (replicate (length (blocks (get_features pc))) (camera_center c))
           = ([], Inr dir_pp) \<and>
         Eval_sh_call (active_sh_degree pc) view (map (\<lambda>r. div_row r (norm_row r)) dir_pp)
           \<in> set (fst (render e vc pc pp bg sm None stage ct)) \<and>
         eval_sh e (active_sh_degree pc) view (map (\<lambda>r. div_row r (norm_row r)) dir_pp)
           = Inr sh2rgb \<and>
         colors_precomp a = Some (clamp_min (map (\<lambda>r. add_scalar r 0.5) sh2rgb) 0))) \<and>
   (\<exists>e' c' pc' pp' bg' sm' stage' ct' a' view' sh2rgb'.
       substring_in ''fine'' stage' \<and> convert_SHs_python pp' \<and>
       rasterizer_args (fst (render e' (Camera c') pc' pp' bg' sm' None stage' ct')) = [a'] \<and>
       means3D a' \<noteq> get_xyz pc' \<and>
       transpose_view (shs a') ((max_sh_degree pc' + 1)^2) = ([], Inr view') \<and>
       eval_sh e' (active_sh_degree pc') view'
         (map (\<lambda>r. div_row r (norm_row r))
            (map (\<lambda>p. sub_vec3 p (camera_center c')) (means3D a'))) = Inr sh2rgb' \<and>
       colors_precomp a' \<noteq> Some (clamp_min (map (\<lambda>r. add_scalar r 0.5) sh2rgb') 0))"
proof (intro conjI impI)
  assume h: "convert_SHs_python pp \<and>
    a \<in> set (rasterizer_args (fst (render e vc pc pp bg sm None stage ct)))"
  then have "\<exists>col. snd (resolve_color e vc pc pp None) = Inr col \<and> colors_precomp a = col"
    by (auto simp: rasterizer_args_render snd_apply_activation_Some split: sum.splits prod.splits option.splits)
  then obtain col where col: "snd (resolve_color e vc pc pp None) = Inr col"
    and a: "colors_precomp a = col"
    by blast
  from resolve_color_sh_Inr [OF conjunct1 [OF h] col] obtain c view dir_pp sh2rgb where
    r: "vc = Camera c"
      "transpose_view (get_features pc) ((max_sh_degree pc + 1)^2) = ([], Inr view)"
      "sub_rows (get_xyz pc)
        (replicate (length (blocks (get_features pc))) (camera_center c)) = ([], Inr dir_pp)"
      "fst (resolve_color e vc pc pp None) =
        [Eval_sh_call (active_sh_degree pc) view (map (\<lambda>r. div_row r (norm_row r)) dir_pp)]"
      "eval_sh e (active_sh_degree pc) view (map (\<lambda>r. div_row r (norm_row r)) dir_pp)
        = Inr sh2rgb"
      "col = Some (clamp_min (map (\<lambda>r. add_scalar r 0.5) sh2rgb) 0)"
    by blast
  from render_trace_rasterized [OF conjunct2 [OF h]] r(4)
  have "Eval_sh_call (active_sh_degree pc) view (map (\<lambda>r. div_row r (norm_row r)) dir_pp)
      \<in> set (fst (render e vc pc pp bg sm None stage ct))"
    by simp
  with r a show "\<exists>c view dir_pp sh2rgb. vc = Camera c \<and>
         transpose_view (get_features pc) ((max_sh_degree pc + 1)^2) = ([], Inr view) \<and>
         sub_rows (get_xyz pc)
           (replicate (length (blocks (get_features pc))) (camera_center c))
           = ([], Inr dir_pp) \<and>
         Eval_sh_call (active_sh_degree pc) view (map (\<lambda>r. div_row r (norm_row r)) dir_pp)
           \<in> set (fst (render e vc pc pp bg sm None stage ct)) \<and>
         eval_sh e (active_sh_degree pc) view (map (\<lambda>r. div_row r (norm_row r)) dir_pp)
           = Inr sh2rgb \<and>
         colors_precomp a = Some (clamp_min (map (\<lambda>r. add_scalar r 0.5) sh2rgb) 0)"
    by blast
next
  have "eval_sh example_env (active_sh_degree example_model) [([0], [0], [0])]
         (map (\<lambda>r. div_row r (norm_row r))
            (map (\<lambda>p. sub_vec3 p (camera_center example_camera)) [(0, 1, 0)]))
        = Inr [(- 1.7, 1, 0)]"
    by (simp add: example_env_def example_camera_def)
  moreover have "transpose_view (Sh_tensor 1 [[(0, 0, 0)]]) ((max_sh_degree example_model + 1)^2)
      = ([], Inr [([0], [0], [0])])"
    by (simp add: transpose_view_def ok_def example_model_fields)
  moreover have "Some [(0, 0.5, 0.5)]
      \<noteq> Some (clamp_min (map (\<lambda>r. add_scalar r 0.5) [(- 1.7, 1, 0)]) (0::real))"
    by (simp add: clamp_min_def)
  moreover have "substring_in ''fine'' ''fine''" "[(0, 1, 0)] \<noteq> get_xyz example_model"
    by (simp_all add: example_model_fields)
  ultimately show "\<exists>e' c' pc' pp' bg' sm' stage' ct' a' view' sh2rgb'.
       substring_in ''fine'' stage' \<and> convert_SHs_python pp' \<and>
       rasterizer_args (fst (render e' (Camera c') pc' pp' bg' sm' None stage' ct')) = [a'] \<and>
       means3D a' \<noteq> get_xyz pc' \<and>
       transpose_view (shs a') ((max_sh_degree pc' + 1)^2) = ([], Inr view') \<and>
       eval_sh e' (active_sh_degree pc') view'
         (map (\<lambda>r. div_row r (norm_row r))
            (map (\<lambda>p. sub_vec3 p (camera_center c')) (means3D a'))) = Inr sh2rgb' \<and>
       colors_precomp a' \<noteq> Some (clamp_min (map (\<lambda>r. add_scalar r 0.5) sh2rgb') 0)"
    using example_fine_run example_pipe_fields(2)
    by (intro exI [of _ example_env] exI [of _ example_camera] exI [of _ example_model]
        exI [of _ example_pipe] exI [of _ "(0, 0, 0)"] exI [of _ 1] exI [of _ "''fine''"]
        exI [of _ None]
        exI [of _ "\<lparr> means3D = [(0, 1, 0)], means2D = [(0, 0, 0)],
          shs = Sh_tensor 1 [[(0, 0, 0)]],
          colors_precomp = Some [(0, 0.5, 0.5)], opacities = [0],
          scales = Some [(0, 0, 0)], rotations = Some [(1, 0, 0, 0)],
          cov3D_precomp = None \<rparr>"]
        exI [of _ "[([0], [0], [0])]"] exI [of _ "[(- 1.7, 1, 0)]"]) simp
qed

theorem sh_evaluated_on_undeformed_model_witness:
  "convert_SHs_python example_pipe \<and>
   \<lparr> means3D = [(0, 1, 0)], means2D = [(0, 0, 0)], shs = Sh_tensor 1 [[(0, 0, 0)]],
      colors_precomp = Some [(0, 0.5, 0.5)], opacities = [0],
      scales = Some [(0, 0, 0)], rotations = Some [(1, 0, 0, 0)],
      cov3D_precomp = None \<rparr>
     \<in> set (rasterizer_args (fst (render example_env (Camera example_camera) example_model
          example_pipe (0, 0, 0) 1 None ''fine'' None))) \<and>
   sub_rows (get_xyz example_model)
     (replicate (length (blocks (get_features example_model))) (camera_center example_camera))
     = ([], Inr [(1, 0, 0)]) \<and>
   (\<exists>sh2rgb. eval_sh example_env (active_sh_degree example_model) [([0], [0], [0])]
        (map (\<lambda>r. div_row r (norm_row r)) [(1, 0, 0)]) = Inr sh2rgb \<and>
      Some [(0, 0.5, 0.5)] = Some (clamp_min (map (\<lambda>r. add_scalar r 0.5) sh2rgb) 0))"
proof -
  have h1: "convert_SHs_python example_pipe"
    by (simp add: example_pipe_fields)
  have h2: "\<lparr> means3D = [(0, 1, 0)], means2D = [(0, 0, 0)], shs = Sh_tensor 1 [[(0, 0, 0)]],
      colors_precomp = Some [(0, 0.5, 0.5)], opacities = [0],
      scales = Some [(0, 0, 0)], rotations = Some [(1, 0, 0, 0)],
      cov3D_precomp = None \<rparr>
     \<in> set (rasterizer_args (fst (render example_env (Camera example_camera) example_model
          example_pipe (0, 0, 0) 1 None ''fine'' None)))"
    by (simp add: example_fine_run)
  have h3: "sub_rows (get_xyz example_model)
     (replicate (length (blocks (get_features example_model))) (camera_center example_camera))
     = ([], Inr [(1, 0, 0)])"
    by (simp add: example_model_fields sub_rows_def ok_def example_camera_def)
  have h4: "\<exists>sh2rgb. eval_sh example_env (active_sh_degree example_model) [([0], [0], [0])]
        (map (\<lambda>r. div_row r (norm_row r)) [(1, 0, 0)]) = Inr sh2rgb \<and>
      Some [(0, 0.5, 0.5)] = Some (clamp_min (map (\<lambda>r. add_scalar r 0.5) sh2rgb) 0)"
    by (simp add: example_env_def clamp_min_def)
  show ?thesis
    using sh_evaluated_on_undeformed_model [where pp = example_pipe and e = example_env
      and vc = "Camera example_camera" and pc = example_model and bg = "(0, 0, 0)" and sm = 1
      and stage = "''fine''" and ct = None
      and a = "\<lparr> means3D = [(0, 1, 0)], means2D = [(0, 0, 0)],
        shs = Sh_tensor 1 [[(0, 0, 0)]],
        colors_precomp = Some [(0, 0.5, 0.5)], opacities = [0],
        scales = Some [(0, 0, 0)], rotations = Some [(1, 0, 0, 0)],
        cov3D_precomp = None \<rparr>"]
    by (intro conjI h1 h2 h3 h4)
qed

section \<open>The spatial filter\<close>

lemma mask_rows_select:
  "length t = length m \<Longrightarrow>
     map fst (filter snd (zip t m)) = map (\<lambda>i. t ! i) (filter (\<lambda>i. m ! i) [0..<length m])"
proof (induction t m rule: rev_induct2)
  case 1
  show ?case by simp
next
  case (2 x xs)
  then show ?case by simp
next
  case (3 y ys)
  then show ?case by simp
next
  case (4 x xs y ys)
  then have l: "length xs = length ys"
    by simp
  have a: "filter (\<lambda>i. (ys @ [y]) ! i) [0..<length ys] = filter (\<lambda>i. ys ! i) [0..<length ys]"
    by (rule filter_cong) (simp_all add: nth_append)
  have b: "map (\<lambda>i. (xs @ [x]) ! i) (filter (\<lambda>i. ys ! i) [0..<length ys])
      = map (\<lambda>i. xs ! i) (filter (\<lambda>i. ys ! i) [0..<length ys])"
    using l by (intro map_cong) (auto simp: nth_append)
  have lhs: "map fst (filter snd (zip (xs @ [x]) (ys @ [y])))
      = map fst (filter snd (zip xs ys)) @ (if y then [x] else [])"
    using l by simp
  have "filter (\<lambda>i. (ys @ [y]) ! i) [0..<length (ys @ [y])]
      = filter (\<lambda>i. ys ! i) [0..<length ys] @ (if y then [length ys] else [])"
    using a by simp
  then have rhs: "map (\<lambda>i. (xs @ [x]) ! i) (filter (\<lambda>i. (ys @ [y]) ! i) [0..<length (ys @ [y])])
      = map (\<lambda>i. xs ! i) (filter (\<lambda>i. ys ! i) [0..<length ys]) @ (if y then [x] else [])"
    using b nth_append_length [of xs x] l by (simp del: upt_Suc length_append)
  from 4(1) [OF l] lhs rhs show ?case
    by simp
qed

lemma mask_index_select:
  "length t = length ps \<Longrightarrow>
     mask_index t (map (\<lambda>d. d < rad) (norm_dim1 ps)) = ok (select_rows (kept_rows rad ps) t)"
proof -
  assume l: "length t = length ps"
  have "filter (\<lambda>i. map (\<lambda>d. d < rad) (norm_dim1 ps) ! i) [0..<length ps]
      = kept_rows rad ps"
    unfolding kept_rows_def by (rule filter_cong) (simp_all add: norm_dim1_def)
  with l mask_rows_select [of t "map (\<lambda>d. d < rad) (norm_dim1 ps)"]
  show ?thesis
    by (simp add: mask_index_def select_rows_def norm_dim1_def)
qed

lemma mask_index_Inr_length:
  "snd (mask_index t m) = Inr r \<Longrightarrow> length t = length m"
  by (simp add: mask_index_def run_simps split: if_splits)

text \<open>The filter on arrays of one length.\<close>

lemma spatial_filter_select:
  assumes "length (screen_means2D b) = length (means3D_final b)"
    and "length (blocks (shs_final b)) = length (means3D_final b)"
    and "length (opacity b) = length (means3D_final b)"
    and "length (scales_final b) = length (means3D_final b)"
    and "length (rotations_final b) = length (means3D_final b)"
  shows "spatial_filter b rad =
     ok \<lparr> means3D_final = select_rows (kept_rows rad (means3D_final b)) (means3D_final b),
          screen_means2D = select_rows (kept_rows rad (means3D_final b)) (screen_means2D b),
          shs_final = Sh_tensor (shape1 (shs_final b))
            (select_rows (kept_rows rad (means3D_final b)) (blocks (shs_final b))),
          opacity = select_rows (kept_rows rad (means3D_final b)) (opacity b),
          scales_final = select_rows (kept_rows rad (means3D_final b)) (scales_final b),
          rotations_final =
            select_rows (kept_rows rad (means3D_final b)) (rotations_final b) \<rparr>"
  using assms by (simp add: spatial_filter_unfold Let_def mask_index_select bind_run_ok)

lemma spatial_filter_Inr_lengths:
  assumes "snd (spatial_filter b rad) = Inr b'"
  shows "length (screen_means2D b) = length (means3D_final b) \<and>
     length (blocks (shs_final b)) = length (means3D_final b) \<and>
     length (opacity b) = length (means3D_final b) \<and>
     length (scales_final b) = length (means3D_final b) \<and>
     length (rotations_final b) = length (means3D_final b)"
  using assms
  by (auto simp: spatial_filter_unfold Let_def snd_bind_run norm_dim1_def
      split: sum.splits dest!: mask_index_Inr_length)


lemma compose_markers_hidden: "\<not> markers_shown cp \<Longrightarrow> compose_markers b cp = ok b"
  by (cases cp) (simp_all add: compose_markers_def)

lemma select_kept_rows: "select_rows (kept_rows rad ps) ps = filter (\<lambda>p. norm_row p < rad) ps"
proof -
  have "filter (\<lambda>p. norm_row p < rad) (map (\<lambda>i. ps ! i) [0..<length ps])
      = map (\<lambda>i. ps ! i) (filter ((\<lambda>p. norm_row p < rad) \<circ> (\<lambda>i. ps ! i)) [0..<length ps])"
    by (rule filter_map)
  then show ?thesis
    by (simp add: select_rows_def kept_rows_def map_nth comp_def)
qed

lemma kept_rows_member:
  "i < length ps \<Longrightarrow> (i \<in> set (kept_rows rad ps)) = (norm_row (ps ! i) < rad)"
  by (simp add: kept_rows_def)

lemma kept_rows_sorted: "sorted_wrt (<) (kept_rows rad ps)"
  by (simp add: kept_rows_def sorted_wrt_filter)

lemma Inr_eq_snd: "(Inr x = snd m) = (snd m = Inr x)"
  by auto

lemma render_no_train_filtered:
  assumes "\<not> markers_shown cp"
    and "a \<in> set (rasterizer_args (fst (render_no_train e vc pc pp bg sm stage ct cp rad)))"
  shows "\<exists>c m3f scf rof opf shf sc ro. vc = Camera c \<and>
     snd (deformation_stage pc stage (get_xyz pc) (Some (raw_scaling pc))
          (Some (raw_rotation pc)) (raw_opacity pc) (get_features pc)
          (replicate (length (get_xyz pc)) (time c)))
       = Inr (m3f, scf, rof, opf, shf) \<and>
     apply_activation (scaling_activation pc) (scaling_activation_None pc) scf
       = ([], Inr (Some sc)) \<and>
     apply_activation (rotation_activation pc) (rotation_activation_None pc) rof
       = ([], Inr (Some ro)) \<and>
     means3D a = select_rows (kept_rows rad m3f) m3f \<and>
     means2D a = select_rows (kept_rows rad m3f) (zeros_like (get_xyz pc)) \<and>
     shs a = Sh_tensor (shape1 shf) (select_rows (kept_rows rad m3f) (blocks shf)) \<and>
     opacities a = select_rows (kept_rows rad m3f) (opacity_activation pc opf) \<and>
     scales a = Some (select_rows (kept_rows rad m3f) sc) \<and>
     rotations a = Some (select_rows (kept_rows rad m3f) ro)"
proof -
  from assms(2) have "\<exists>c m3f scf rof opf shf sc ro b1. vc = Camera c \<and>
     snd (deformation_stage pc stage (get_xyz pc) (Some (raw_scaling pc))
          (Some (raw_rotation pc)) (raw_opacity pc) (get_features pc)
          (replicate (length (get_xyz pc)) (time c)))
       = Inr (m3f, scf, rof, opf, shf) \<and>
     apply_activation (scaling_activation pc) (scaling_activation_None pc) scf
       = ([], Inr (Some sc)) \<and>
     apply_activation (rotation_activation pc) (rotation_activation_None pc) rof
       = ([], Inr (Some ro)) \<and>
     snd (spatial_filter
           \<lparr> means3D_final = m3f, screen_means2D = zeros_like (get_xyz pc),
             shs_final = shf, opacity = opacity_activation pc opf,
             scales_final = sc,
             rotations_final = ro \<rparr> rad) = Inr b1 \<and>
     a = batch_args b1 None None"
    by (auto simp: rasterizer_args_render_no_train compose_markers_hidden [OF assms(1)]
          run_simps Inr_eq_snd pure_run_Inr [OF fst_apply_activation]
        split: viewpoint.splits sum.splits prod.splits option.splits)
  then obtain c m3f scf rof opf shf sc ro b1 where
    r: "vc = Camera c"
      "snd (deformation_stage pc stage (get_xyz pc) (Some (raw_scaling pc))
          (Some (raw_rotation pc)) (raw_opacity pc) (get_features pc)
          (replicate (length (get_xyz pc)) (time c)))
       = Inr (m3f, scf, rof, opf, shf)"
      "apply_activation (scaling_activation pc) (scaling_activation_None pc) scf
         = ([], Inr (Some sc))"
      "apply_activation (rotation_activation pc) (rotation_activation_None pc) rof
         = ([], Inr (Some ro))"
    and f: "snd (spatial_filter
           \<lparr> means3D_final = m3f, screen_means2D = zeros_like (get_xyz pc),
             shs_final = shf, opacity = opacity_activation pc opf,
             scales_final = sc,
             rotations_final = ro \<rparr> rad) = Inr b1"
    and a: "a = batch_args b1 None None"
    by blast
  from spatial_filter_Inr_lengths [OF f] have "spatial_filter
           \<lparr> means3D_final = m3f, screen_means2D = zeros_like (get_xyz pc),
             shs_final = shf, opacity = opacity_activation pc opf,
             scales_final = sc,
             rotations_final = ro \<rparr> rad
      = ok \<lparr> means3D_final = select_rows (kept_rows rad m3f) m3f,
          screen_means2D = select_rows (kept_rows rad m3f) (zeros_like (get_xyz pc)),
          shs_final = Sh_tensor (shape1 shf) (select_rows (kept_rows rad m3f) (blocks shf)),
          opacity = select_rows (kept_rows rad m3f) (opacity_activation pc opf),
          scales_final = select_rows (kept_rows rad m3f) sc,
          rotations_final =
            select_rows (kept_rows rad m3f) ro \<rparr>"
    using spatial_filter_select
      [of "\<lparr> means3D_final = m3f, screen_means2D = zeros_like (get_xyz pc),
             shs_final = shf, opacity = opacity_activation pc opf,
             scales_final = sc,
             rotations_final = ro \<rparr>" rad]
    by simp
  with f have "b1 = \<lparr> means3D_final = select_rows (kept_rows rad m3f) m3f,
          screen_means2D = select_rows (kept_rows rad m3f) (zeros_like (get_xyz pc)),
          shs_final = Sh_tensor (shape1 shf) (select_rows (kept_rows rad m3f) (blocks shf)),
          opacity = select_rows (kept_rows rad m3f) (opacity_activation pc opf),
          scales_final = select_rows (kept_rows rad m3f) sc,
          rotations_final =
            select_rows (kept_rows rad m3f) ro \<rparr>"
    by (simp add: run_simps)
  with r a show ?thesis
    by (simp add: batch_args_def)
qed

text \<open>
  Claim C4. On arrays of one length the spatial filter returns, for each of the six arrays,
  its rows at the same list of indices: the indices, in increasing order, of the positions
  whose Euclidean norm is strictly less than the radius. An index is in that list exactly
  when the norm of its position is less than the radius, so a primitive at the radius or
  beyond is absent and one inside is present, and the retained positions are the
  positions inside the radius in their order. When no markers are shown, the rasterizer of
  the preview path receives exactly these rows of the positions returned by the stage
  selection, of the zero anchors, of the coefficients, of the activated opacity and of the
  tensors \<open>sc\<close> and \<open>ro\<close> that the scaling and the rotation activation returned.
\<close>

theorem spatial_filter_keeps_rows_within_radius:
  "(length (screen_means2D b) = length (means3D_final b) \<and>
    length (blocks (shs_final b)) = length (means3D_final b) \<and>
    length (opacity b) = length (means3D_final b) \<and>
    length (scales_final b) = length (means3D_final b) \<and>
    length (rotations_final b) = length (means3D_final b) \<longrightarrow>
      spatial_filter b rad =
        ([], Inr
          \<lparr> means3D_final = select_rows (kept_rows rad (means3D_final b)) (means3D_final b),
            screen_means2D = select_rows (kept_rows rad (means3D_final b)) (screen_means2D b),
            shs_final = Sh_tensor (shape1 (shs_final b))
              (select_rows (kept_rows rad (means3D_final b)) (blocks (shs_final b))),
            opacity = select_rows (kept_rows rad (means3D_final b)) (opacity b),
            scales_final = select_rows (kept_rows rad (means3D_final b)) (scales_final b),
            rotations_final =
              select_rows (kept_rows rad (means3D_final b)) (rotations_final b) \<rparr>)) \<and>
   (\<forall>i < length ps. (i \<in> set (kept_rows rad ps)) = (norm_row (ps ! i) < rad)) \<and>
   sorted_wrt (<) (kept_rows rad ps) \<and>
   select_rows (kept_rows rad ps) ps = filter (\<lambda>p. norm_row p < rad) ps \<and>
   (\<not> markers_shown cp \<and>
    a \<in> set (rasterizer_args (fst (render_no_train e vc pc pp bg sm stage ct cp rad))) \<longrightarrow>
      (\<exists>c m3f scf rof opf shf sc ro. vc = Camera c \<and>
         snd (deformation_stage pc stage (get_xyz pc) (Some (raw_scaling pc))
              (Some (raw_rotation pc)) (raw_opacity pc) (get_features pc)
              (replicate (length (get_xyz pc)) (time c)))
           = Inr (m3f, scf, rof, opf, shf) \<and>
         apply_activation (scaling_activation pc) (scaling_activation_None pc) scf
           = ([], Inr (Some sc)) \<and>
         apply_activation (rotation_activation pc) (rotation_activation_None pc) rof
           = ([], Inr (Some ro)) \<and>
         means3D a = select_rows (kept_rows rad m3f) m3f \<and>
         means2D a = select_rows (kept_rows rad m3f) (zeros_like (get_xyz pc)) \<and>
         shs a = Sh_tensor (shape1 shf) (select_rows (kept_rows rad m3f) (blocks shf)) \<and>
         opacities a = select_rows (kept_rows rad m3f) (opacity_activation pc opf) \<and>
         scales a = Some (select_rows (kept_rows rad m3f) sc) \<and>
         rotations a = Some (select_rows (kept_rows rad m3f) ro)))"
  using spatial_filter_select [of b rad] kept_rows_member [of _ ps rad]
    kept_rows_sorted [of rad ps] select_kept_rows [of rad ps]
    render_no_train_filtered [of cp a e vc pc pp bg sm stage ct rad]
  by (simp add: ok_def)


lemma example_kept_rows: "kept_rows 1 [(1, 0, 0), (0, 0, 0)] = [1]"
  by (simp add: kept_rows_def)

lemma example_scene2_fields:
  "get_xyz example_scene2 = [(1, 0, 0), (0, 0, 0)]"
  "raw_opacity example_scene2 = [0, 1]"
  "raw_scaling example_scene2 = [(0, 0, 0), (1, 1, 1)]"
  "raw_rotation example_scene2 = [(1, 0, 0, 0), (0, 1, 0, 0)]"
  "get_features example_scene2 = Sh_tensor 1 [[(0, 0, 0)], [(1, 1, 1)]]"
  "scaling_activation example_scene2 = (\<lambda>t. t)"
  "rotation_activation example_scene2 = (\<lambda>t. t)"
  "scaling_activation_None example_scene2 = Inr None"
  "rotation_activation_None example_scene2 = Inr None"
  "opacity_activation example_scene2 = (\<lambda>t. t)"
  by (simp_all add: example_scene2_def example_model_def)

lemma example_scene2_preview:
  "rasterizer_args (fst (render_no_train example_env (Camera example_camera) example_scene2
       example_pipe (0, 0, 0) 1 ''coarse'' None None 1)) =
     [\<lparr> means3D = [(0, 0, 0)], means2D = [(0, 0, 0)], shs = Sh_tensor 1 [[(1, 1, 1)]],
        colors_precomp = None, opacities = [1], scales = Some [(1, 1, 1)],
        rotations = Some [(0, 1, 0, 0)], cov3D_precomp = None \<rparr>]"
  by (simp add: rasterizer_args_render_no_train snd_apply_activation_Some deformation_stage_def run_simps
      example_scene2_fields zeros_like_def spatial_filter_select example_kept_rows
      select_rows_def compose_markers_def batch_args_def)

theorem spatial_filter_keeps_rows_within_radius_witness:
  "spatial_filter
     \<lparr> means3D_final = [(1, 0, 0), (0, 0, 0)], screen_means2D = [(0, 0, 0), (0, 0, 0)],
       shs_final = Sh_tensor 1 [[(0, 0, 0)], [(1, 1, 1)]], opacity = [0, 1],
       scales_final = [(0, 0, 0), (1, 1, 1)],
       rotations_final = [(1, 0, 0, 0), (0, 1, 0, 0)] \<rparr> 1 =
     ([], Inr
       \<lparr> means3D_final = [(0, 0, 0)], screen_means2D = [(0, 0, 0)],
         shs_final = Sh_tensor 1 [[(1, 1, 1)]], opacity = [1],
         scales_final = [(1, 1, 1)], rotations_final = [(0, 1, 0, 0)] \<rparr>) \<and>
   norm_row (1, 0, 0) = 1 \<and> norm_row (0, 0, 0) = 0 \<and>
   kept_rows 1 [(1, 0, 0), (0, 0, 0)] = [1] \<and>
   \<not> markers_shown None \<and>
   \<lparr> means3D = [(0, 0, 0)], means2D = [(0, 0, 0)], shs = Sh_tensor 1 [[(1, 1, 1)]],
      colors_precomp = None, opacities = [1], scales = Some [(1, 1, 1)],
      rotations = Some [(0, 1, 0, 0)], cov3D_precomp = None \<rparr>
     \<in> set (rasterizer_args (fst (render_no_train example_env (Camera example_camera)
          example_scene2 example_pipe (0, 0, 0) 1 ''coarse'' None None 1)))"
proof -
  have h1: "spatial_filter
     \<lparr> means3D_final = [(1, 0, 0), (0, 0, 0)], screen_means2D = [(0, 0, 0), (0, 0, 0)],
       shs_final = Sh_tensor 1 [[(0, 0, 0)], [(1, 1, 1)]], opacity = [0, 1],
       scales_final = [(0, 0, 0), (1, 1, 1)],
       rotations_final = [(1, 0, 0, 0), (0, 1, 0, 0)] \<rparr> 1 =
     ([], Inr
       \<lparr> means3D_final = [(0, 0, 0)], screen_means2D = [(0, 0, 0)],
         shs_final = Sh_tensor 1 [[(1, 1, 1)]], opacity = [1],
         scales_final = [(1, 1, 1)], rotations_final = [(0, 1, 0, 0)] \<rparr>)"
    using spatial_filter_keeps_rows_within_radius
      [where b = "\<lparr> means3D_final = [(1, 0, 0), (0, 0, 0)],
         screen_means2D = [(0, 0, 0), (0, 0, 0)],
         shs_final = Sh_tensor 1 [[(0, 0, 0)], [(1, 1, 1)]], opacity = [0, 1],
         scales_final = [(0, 0, 0), (1, 1, 1)],
         rotations_final = [(1, 0, 0, 0), (0, 1, 0, 0)] \<rparr>" and rad = 1
        and ps = "[(1, 0, 0), (0, 0, 0)]" and cp = None and e = example_env
        and vc = "Camera example_camera" and pc = example_scene2 and pp = example_pipe
        and bg = "(0, 0, 0)" and sm = 1 and stage = "''coarse''" and ct = None
        and a = "\<lparr> means3D = [(0, 0, 0)], means2D = [(0, 0, 0)],
          shs = Sh_tensor 1 [[(1, 1, 1)]], colors_precomp = None, opacities = [1],
          scales = Some [(1, 1, 1)], rotations = Some [(0, 1, 0, 0)],
          cov3D_precomp = None \<rparr>"]
    by (simp add: example_kept_rows select_rows_def)
  have h2: "norm_row (1, 0, 0) = 1" "norm_row (0, 0, 0) = 0"
    by simp_all
  have h3: "\<not> markers_shown None"
    by simp
  show ?thesis
    using h1 h2 h3 example_kept_rows example_scene2_preview by simp
qed


section \<open>Composition with the marker set\<close>

lemma marker_batch_eq:
  "marker_batch cp w =
     \<lparr> means3D_final = xyzs cp,
       screen_means2D = replicate (length (xyzs cp)) (0, 0, 0),
       shs_final = Sh_tensor w (replicate (length (xyzs cp)) (replicate w (0, 0, 0))),
       opacity = replicate (length (xyzs cp)) 1,
       scales_final = replicate (length (xyzs cp)) (scale cp),
       rotations_final = qs cp \<rparr>"
proof -
  have a: "map (\<lambda>r. add_scalar r 0) (xyzs cp) = xyzs cp"
    by (rule map_idI) auto
  have b: "map (\<lambda>(w, x, y, z). (w + 0, x + 0, y + 0, z + 0)) (qs cp) = qs cp"
    by (rule map_idI) auto
  show ?thesis
    by (simp add: marker_batch_def Let_def a b zeros_like_def ones_like_def
        map_replicate_const)
qed

lemma compose_markers_both:
  assumes "show_cameras cp" "show_scene cp"
  shows "compose_markers b (Some cp) =
     ok \<lparr> means3D_final = means3D_final b @ xyzs cp,
          screen_means2D = screen_means2D b @ replicate (length (xyzs cp)) (0, 0, 0),
          shs_final = Sh_tensor (shape1 (shs_final b))
            (blocks (shs_final b)
               @ replicate (length (xyzs cp)) (replicate (shape1 (shs_final b)) (0, 0, 0))),
          opacity = opacity b @ replicate (length (xyzs cp)) 1,
          scales_final = scales_final b @ replicate (length (xyzs cp)) (scale cp),
          rotations_final = rotations_final b @ qs cp \<rparr>"
  using assms
  by (simp add: compose_markers_def Let_def marker_batch_eq cat_sh_def bind_run_ok)

lemma compose_markers_only:
  assumes "show_cameras cp" "\<not> show_scene cp"
  shows "compose_markers b (Some cp) = ok (marker_batch cp (shape1 (shs_final b)))"
  using assms by (simp add: compose_markers_def Let_def)

text \<open>
  Claim C3. For a scene batch of 100 rows in each array and a marker descriptor of 8
  positions and 8 orientations: with markers and scene shown the result has 108 rows in
  each array, its first 100 rows are the scene batch and its last 8 rows are the marker
  set (opacity 1, the configured scale vector, the given positions and orientations, zero
  anchors and zero coefficients of the scene's width), every array being the scene's rows
  followed by the markers' rows; with markers shown and the scene hidden the result is the
  marker set, of 8 rows; with markers hidden or no descriptor the result is the scene
  batch.
\<close>

theorem compose_markers_100_8:
  assumes "list_all (\<lambda>n. n = 100) (batch_rows b)"
    and "length (xyzs cp) = 8" and "length (qs cp) = 8"
  shows "(show_cameras cp \<and> show_scene cp \<longrightarrow>
      (\<exists>b'. compose_markers b (Some cp) = ([], Inr b') \<and>
         list_all (\<lambda>n. n = 108) (batch_rows b') \<and>
         take_rows 100 b' = b \<and>
         drop_rows 100 b' = marker_batch cp (shape1 (shs_final b)) \<and>
         opacity (drop_rows 100 b') = replicate 8 1 \<and>
         scales_final (drop_rows 100 b') = replicate 8 (scale cp) \<and>
         means3D_final (drop_rows 100 b') = xyzs cp \<and>
         rotations_final (drop_rows 100 b') = qs cp \<and>
         screen_means2D (drop_rows 100 b') = replicate 8 (0, 0, 0) \<and>
         shs_final (drop_rows 100 b') =
           Sh_tensor (shape1 (shs_final b))
             (replicate 8 (replicate (shape1 (shs_final b)) (0, 0, 0))))) \<and>
    (show_cameras cp \<and> \<not> show_scene cp \<longrightarrow>
       compose_markers b (Some cp) = ([], Inr (marker_batch cp (shape1 (shs_final b)))) \<and>
       list_all (\<lambda>n. n = 8) (batch_rows (marker_batch cp (shape1 (shs_final b)))) \<and>
       opacity (marker_batch cp (shape1 (shs_final b))) = replicate 8 1 \<and>
       scales_final (marker_batch cp (shape1 (shs_final b))) = replicate 8 (scale cp)) \<and>
    (\<not> show_cameras cp \<longrightarrow> compose_markers b (Some cp) = ([], Inr b)) \<and>
    compose_markers b None = ([], Inr b)"
proof (intro conjI impI)
  assume h: "show_cameras cp \<and> show_scene cp"
  let ?b' = "\<lparr> means3D_final = means3D_final b @ xyzs cp,
          screen_means2D = screen_means2D b @ replicate (length (xyzs cp)) (0, 0, 0),
          shs_final = Sh_tensor (shape1 (shs_final b))
            (blocks (shs_final b)
               @ replicate (length (xyzs cp)) (replicate (shape1 (shs_final b)) (0, 0, 0))),
          opacity = opacity b @ replicate (length (xyzs cp)) 1,
          scales_final = scales_final b @ replicate (length (xyzs cp)) (scale cp),
          rotations_final = rotations_final b @ qs cp \<rparr>"
  have c: "compose_markers b (Some cp) = ([], Inr ?b')"
    using h by (simp add: compose_markers_both ok_def)
  have r: "list_all (\<lambda>n. n = 108) (batch_rows ?b')"
    using assms by (simp add: batch_rows_def)
  have t: "take_rows 100 ?b' = b"
    using assms by (intro batch.equality) (simp_all add: take_rows_def batch_rows_def)
  have d: "drop_rows 100 ?b' = marker_batch cp (shape1 (shs_final b))"
    using assms by (simp add: drop_rows_def batch_rows_def marker_batch_eq)
  have m: "opacity (marker_batch cp (shape1 (shs_final b))) = replicate 8 1"
    "scales_final (marker_batch cp (shape1 (shs_final b))) = replicate 8 (scale cp)"
    "means3D_final (marker_batch cp (shape1 (shs_final b))) = xyzs cp"
    "rotations_final (marker_batch cp (shape1 (shs_final b))) = qs cp"
    "screen_means2D (marker_batch cp (shape1 (shs_final b))) = replicate 8 (0, 0, 0)"
    "shs_final (marker_batch cp (shape1 (shs_final b))) =
       Sh_tensor (shape1 (shs_final b))
         (replicate 8 (replicate (shape1 (shs_final b)) (0, 0, 0)))"
    using assms by (simp_all add: marker_batch_eq)
  from c r t d m show "\<exists>b'. compose_markers b (Some cp) = ([], Inr b') \<and>
         list_all (\<lambda>n. n = 108) (batch_rows b') \<and>
         take_rows 100 b' = b \<and>
         drop_rows 100 b' = marker_batch cp (shape1 (shs_final b)) \<and>
         opacity (drop_rows 100 b') = replicate 8 1 \<and>
         scales_final (drop_rows 100 b') = replicate 8 (scale cp) \<and>
         means3D_final (drop_rows 100 b') = xyzs cp \<and>
         rotations_final (drop_rows 100 b') = qs cp \<and>
         screen_means2D (drop_rows 100 b') = replicate 8 (0, 0, 0) \<and>
         shs_final (drop_rows 100 b') =
           Sh_tensor (shape1 (shs_final b))
             (replicate 8 (replicate (shape1 (shs_final b)) (0, 0, 0)))"
    by (intro exI [of _ ?b']) (simp only: simp_thms)
next
  assume h: "show_cameras cp \<and> \<not> show_scene cp"
  then show "compose_markers b (Some cp) = ([], Inr (marker_batch cp (shape1 (shs_final b))))"
    by (simp add: compose_markers_only ok_def)
  show "list_all (\<lambda>n. n = 8) (batch_rows (marker_batch cp (shape1 (shs_final b))))"
    using assms by (simp add: marker_batch_eq batch_rows_def)
  show "opacity (marker_batch cp (shape1 (shs_final b))) = replicate 8 1"
    using assms by (simp add: marker_batch_eq)
  show "scales_final (marker_batch cp (shape1 (shs_final b))) = replicate 8 (scale cp)"
    using assms by (simp add: marker_batch_eq)
next
  assume "\<not> show_cameras cp"
  then show "compose_markers b (Some cp) = ([], Inr b)"
    by (simp add: compose_markers_def ok_def)
next
  show "compose_markers b None = ([], Inr b)"
    by (simp add: compose_markers_def ok_def)
qed


theorem compose_markers_100_8_witness:
  "list_all (\<lambda>n. n = 100) (batch_rows example_scene_batch) \<and>
   length (xyzs example_markers) = 8 \<and> length (qs example_markers) = 8 \<and>
   show_cameras example_markers \<and> show_scene example_markers \<and>
   (\<exists>b'. compose_markers example_scene_batch (Some example_markers) = ([], Inr b') \<and>
      list_all (\<lambda>n. n = 108) (batch_rows b') \<and>
      take_rows 100 b' = example_scene_batch \<and>
      opacity (drop_rows 100 b') = replicate 8 1 \<and>
      scales_final (drop_rows 100 b') = replicate 8 (0.1, 0.2, 0.3)) \<and>
   list_all (\<lambda>n. n = 8)
     (batch_rows (marker_batch (example_markers\<lparr>show_scene := False\<rparr>) 1)) \<and>
   compose_markers example_scene_batch (Some (example_markers\<lparr>show_scene := False\<rparr>)) =
     ([], Inr (marker_batch (example_markers\<lparr>show_scene := False\<rparr>) 1)) \<and>
   compose_markers example_scene_batch (Some (example_markers\<lparr>show_cameras := False\<rparr>)) =
     ([], Inr example_scene_batch)"
proof -
  have h1: "list_all (\<lambda>n. n = 100) (batch_rows example_scene_batch)"
    by (simp add: batch_rows_def example_scene_batch_def)
  have h2: "length (xyzs example_markers) = 8" "length (qs example_markers) = 8"
    "length (xyzs (example_markers\<lparr>show_scene := False\<rparr>)) = 8"
    "length (qs (example_markers\<lparr>show_scene := False\<rparr>)) = 8"
    "length (xyzs (example_markers\<lparr>show_cameras := False\<rparr>)) = 8"
    "length (qs (example_markers\<lparr>show_cameras := False\<rparr>)) = 8"
    by (simp_all add: example_markers_def)
  have h3: "show_cameras example_markers" "show_scene example_markers"
    "scale example_markers = (0.1, 0.2, 0.3)"
    "shape1 (shs_final example_scene_batch) = 1"
    by (simp_all add: example_markers_def example_scene_batch_def)
  from compose_markers_100_8 [OF h1 h2(1) h2(2)]
    compose_markers_100_8 [OF h1 h2(3) h2(4)]
    compose_markers_100_8 [OF h1 h2(5) h2(6)] h1 h2 h3
  show ?thesis
    by simp blast
qed

section \<open>The gradient anchor returned by the preview path\<close>

lemma render_no_train_Inr:
  assumes "snd (render_no_train e vc pc pp bg sm stage ct cp rad) = Inr out"
  shows "\<exists>c m3f scf rof opf shf sc ro b1 b2 img rd dp. vc = Camera c \<and>
     snd (deformation_stage pc stage (get_xyz pc) (Some (raw_scaling pc))
          (Some (raw_rotation pc)) (raw_opacity pc) (get_features pc)
          (replicate (length (get_xyz pc)) (time c)))
       = Inr (m3f, scf, rof, opf, shf) \<and>
     apply_activation (scaling_activation pc) (scaling_activation_None pc) scf
       = ([], Inr (Some sc)) \<and>
     apply_activation (rotation_activation pc) (rotation_activation_None pc) rof
       = ([], Inr (Some ro)) \<and>
     snd (spatial_filter
           \<lparr> means3D_final = m3f, screen_means2D = zeros_like (get_xyz pc),
             shs_final = shf, opacity = opacity_activation pc opf,
             scales_final = sc,
             rotations_final = ro \<rparr> rad) = Inr b1 \<and>
     snd (compose_markers b1 cp) = Inr b2 \<and>
     rasterizer e (settings_of_camera c pc pp bg sm) (batch_args b2 None None)
       = Inr (img, rd, dp) \<and>
     out = \<lparr> render_image = img, viewspace_points = zeros_like (get_xyz pc),
             visibility_filter = map (\<lambda>r. r > 0) rd, radii = rd, depth = dp \<rparr>"
  using assms
  by (auto simp: render_no_train_def Let_def snd_bind_run run_simps
        rasterize_def external_def Inr_eq_snd snd_filter_arrays_Inr
        pure_run_Inr [OF fst_apply_activation]
      split: viewpoint.splits sum.splits prod.splits)

lemma compose_markers_rows:
  "snd (compose_markers b cp) = Inr b' \<Longrightarrow>
     length (means3D_final b') = rasterized_rows cp (length (means3D_final b))"
  by (cases cp)
     (auto simp: compose_markers_def Let_def marker_batch_eq cat_sh_def run_simps bind_run_ok
      split: if_splits)


lemma length_select_rows: "length (select_rows idx t) = length idx"
  by (simp add: select_rows_def)

lemma length_kept_rows: "length (kept_rows rad ps) \<le> length ps"
  using length_filter_le [of "\<lambda>i. norm_row (ps ! i) < rad" "[0..<length ps]"]
  by (simp add: kept_rows_def)

text \<open>
  Claim C10, as amended. Whenever the preview path returns, \<^verbatim>\<open>viewspace_points\<close> is
  the zero array with one row per scene primitive, untouched by the filter and by the
  composition, and the visibility mask is as long as the radii that the rasterizer
  returned. The rasterizer is called once, with \<open>k\<close> rows when no markers are shown,
  \<open>k + M\<close> rows when markers are shown over the scene and \<open>M\<close> rows when they are shown
  alone (\<open>k\<close> rows kept by the filter, \<open>M\<close> markers). So the row count of the anchor
  differs from the number of rasterized primitives exactly when that number differs from
  the number of scene primitives: always when the filter removes rows and no markers are
  shown; and the same holds for the radii when the rasterizer returns one per primitive.
\<close>

theorem viewspace_points_rows:
  assumes "snd (render_no_train e vc pc pp bg sm stage ct cp rad) = Inr out"
  shows "viewspace_points out = zeros_like (get_xyz pc) \<and>
    length (viewspace_points out) = length (get_xyz pc) \<and>
    length (visibility_filter out) = length (radii out) \<and>
    (\<exists>c m3f scf rof opf shf sc ro a img dp. vc = Camera c \<and>
       snd (deformation_stage pc stage (get_xyz pc) (Some (raw_scaling pc))
            (Some (raw_rotation pc)) (raw_opacity pc) (get_features pc)
            (replicate (length (get_xyz pc)) (time c)))
         = Inr (m3f, scf, rof, opf, shf) \<and>
       apply_activation (scaling_activation pc) (scaling_activation_None pc) scf
         = ([], Inr (Some sc)) \<and>
       apply_activation (rotation_activation pc) (rotation_activation_None pc) rof
         = ([], Inr (Some ro)) \<and>
       length m3f = length (get_xyz pc) \<and>
       length (kept_rows rad m3f) \<le> length (get_xyz pc) \<and>
       rasterizer_args (fst (render_no_train e vc pc pp bg sm stage ct cp rad)) = [a] \<and>
       rasterizer e (settings_of_camera c pc pp bg sm) a = Inr (img, radii out, dp) \<and>
       length (means3D a) = rasterized_rows cp (length (kept_rows rad m3f)) \<and>
       (length (viewspace_points out) \<noteq> length (means3D a)) =
         (rasterized_rows cp (length (kept_rows rad m3f)) \<noteq> length (get_xyz pc)) \<and>
       (\<not> markers_shown cp \<and> length (kept_rows rad m3f) < length (get_xyz pc) \<longrightarrow>
          length (viewspace_points out) \<noteq> length (means3D a)) \<and>
       (length (radii out) = length (means3D a) \<longrightarrow>
          (length (viewspace_points out) \<noteq> length (radii out)) =
            (rasterized_rows cp (length (kept_rows rad m3f)) \<noteq> length (get_xyz pc))))"
proof -
  from render_no_train_Inr [OF assms] obtain c m3f scf rof opf shf sc ro b1 b2 img rd dp where
    vc: "vc = Camera c"
    and d: "snd (deformation_stage pc stage (get_xyz pc) (Some (raw_scaling pc))
          (Some (raw_rotation pc)) (raw_opacity pc) (get_features pc)
          (replicate (length (get_xyz pc)) (time c)))
       = Inr (m3f, scf, rof, opf, shf)"
      "apply_activation (scaling_activation pc) (scaling_activation_None pc) scf
         = ([], Inr (Some sc))"
      "apply_activation (rotation_activation pc) (rotation_activation_None pc) rof
         = ([], Inr (Some ro))"
    and f: "snd (spatial_filter
           \<lparr> means3D_final = m3f, screen_means2D = zeros_like (get_xyz pc),
             shs_final = shf, opacity = opacity_activation pc opf,
             scales_final = sc,
             rotations_final = ro \<rparr> rad) = Inr b1"
    and m: "snd (compose_markers b1 cp) = Inr b2"
    and r: "rasterizer e (settings_of_camera c pc pp bg sm) (batch_args b2 None None)
       = Inr (img, rd, dp)"
    and out: "out = \<lparr> render_image = img, viewspace_points = zeros_like (get_xyz pc),
             visibility_filter = map (\<lambda>r. r > 0) rd, radii = rd, depth = dp \<rparr>"
    by blast
  from spatial_filter_Inr_lengths [OF f] have len: "length m3f = length (get_xyz pc)"
    by (simp add: zeros_like_def)
  from spatial_filter_Inr_lengths [OF f] f
  have "length (means3D_final b1) = length (kept_rows rad m3f)"
    using spatial_filter_select
      [of "\<lparr> means3D_final = m3f, screen_means2D = zeros_like (get_xyz pc),
             shs_final = shf, opacity = opacity_activation pc opf,
             scales_final = sc,
             rotations_final = ro \<rparr>" rad]
    by (auto simp: run_simps length_select_rows)
  with compose_markers_rows [OF m]
  have rows: "length (means3D (batch_args b2 None None))
      = rasterized_rows cp (length (kept_rows rad m3f))"
    by (simp add: batch_args_def)
  have args: "rasterizer_args (fst (render_no_train e vc pc pp bg sm stage ct cp rad))
      = [batch_args b2 None None]"
    using vc d f m by (simp add: rasterizer_args_render_no_train)
  have k: "length (kept_rows rad m3f) \<le> length (get_xyz pc)"
    using length_kept_rows [of rad m3f] len by simp
  have vp: "viewspace_points out = zeros_like (get_xyz pc)"
    "length (viewspace_points out) = length (get_xyz pc)"
    "length (visibility_filter out) = length (radii out)" "radii out = rd"
    using out by (simp_all add: zeros_like_def)
  have hid: "\<not> markers_shown cp \<Longrightarrow> rasterized_rows cp (length (kept_rows rad m3f))
      = length (kept_rows rad m3f)"
    by (cases cp) simp_all
  have "vc = Camera c \<and>
       snd (deformation_stage pc stage (get_xyz pc) (Some (raw_scaling pc))
            (Some (raw_rotation pc)) (raw_opacity pc) (get_features pc)
            (replicate (length (get_xyz pc)) (time c)))
         = Inr (m3f, scf, rof, opf, shf) \<and>
       apply_activation (scaling_activation pc) (scaling_activation_None pc) scf
         = ([], Inr (Some sc)) \<and>
       apply_activation (rotation_activation pc) (rotation_activation_None pc) rof
         = ([], Inr (Some ro)) \<and>
       length m3f = length (get_xyz pc) \<and>
       length (kept_rows rad m3f) \<le> length (get_xyz pc) \<and>
       rasterizer_args (fst (render_no_train e vc pc pp bg sm stage ct cp rad))
         = [batch_args b2 None None] \<and>
       rasterizer e (settings_of_camera c pc pp bg sm) (batch_args b2 None None)
         = Inr (img, radii out, dp) \<and>
       length (means3D (batch_args b2 None None))
         = rasterized_rows cp (length (kept_rows rad m3f)) \<and>
       (length (viewspace_points out) \<noteq> length (means3D (batch_args b2 None None))) =
         (rasterized_rows cp (length (kept_rows rad m3f)) \<noteq> length (get_xyz pc)) \<and>
       (\<not> markers_shown cp \<and> length (kept_rows rad m3f) < length (get_xyz pc) \<longrightarrow>
          length (viewspace_points out) \<noteq> length (means3D (batch_args b2 None None))) \<and>
       (length (radii out) = length (means3D (batch_args b2 None None)) \<longrightarrow>
          (length (viewspace_points out) \<noteq> length (radii out)) =
            (rasterized_rows cp (length (kept_rows rad m3f)) \<noteq> length (get_xyz pc)))"
    using vc d len k args r rows vp hid by auto
  then have "\<exists>c m3f scf rof opf shf sc ro a img dp. vc = Camera c \<and>
       snd (deformation_stage pc stage (get_xyz pc) (Some (raw_scaling pc))
            (Some (raw_rotation pc)) (raw_opacity pc) (get_features pc)
            (replicate (length (get_xyz pc)) (time c)))
         = Inr (m3f, scf, rof, opf, shf) \<and>
       apply_activation (scaling_activation pc) (scaling_activation_None pc) scf
         = ([], Inr (Some sc)) \<and>
       apply_activation (rotation_activation pc) (rotation_activation_None pc) rof
         = ([], Inr (Some ro)) \<and>
       length m3f = length (get_xyz pc) \<and>
       length (kept_rows rad m3f) \<le> length (get_xyz pc) \<and>
       rasterizer_args (fst (render_no_train e vc pc pp bg sm stage ct cp rad)) = [a] \<and>
       rasterizer e (settings_of_camera c pc pp bg sm) a = Inr (img, radii out, dp) \<and>
       length (means3D a) = rasterized_rows cp (length (kept_rows rad m3f)) \<and>
       (length (viewspace_points out) \<noteq> length (means3D a)) =
         (rasterized_rows cp (length (kept_rows rad m3f)) \<noteq> length (get_xyz pc)) \<and>
       (\<not> markers_shown cp \<and> length (kept_rows rad m3f) < length (get_xyz pc) \<longrightarrow>
          length (viewspace_points out) \<noteq> length (means3D a)) \<and>
       (length (radii out) = length (means3D a) \<longrightarrow>
          (length (viewspace_points out) \<noteq> length (radii out)) =
            (rasterized_rows cp (length (kept_rows rad m3f)) \<noteq> length (get_xyz pc)))"
    by (intro exI)
  with vp show ?thesis
    by (intro conjI)
qed


lemma example_kept_none: "kept_rows 1 [(1, 0, 0)] = []"
  by (simp add: kept_rows_def)

lemma example_marker_run:
  "render_no_train example_env (Camera example_camera) example_model example_pipe (0, 0, 0) 1
       ''coarse'' None (Some example_one_marker) 1 =
     ([Rasterizer_call (settings_of_camera example_camera example_model example_pipe (0, 0, 0) 1)
         \<lparr> means3D = [(0, 0, 0)], means2D = [(0, 0, 0)], shs = Sh_tensor 1 [[(0, 0, 0)]],
           colors_precomp = None, opacities = [1], scales = Some [(1, 1, 1)],
           rotations = Some [(1, 0, 0, 0)], cov3D_precomp = None \<rparr>],
      Inr \<lparr> render_image = [], viewspace_points = [(0, 0, 0)], visibility_filter = [True],
            radii = [1], depth = [] \<rparr>)"
  by (simp add: render_no_train_def Let_def bind_run_ok deformation_stage_def
      apply_activation_simps example_model_fields zeros_like_def filter_arrays_Some
      spatial_filter_select example_kept_none select_rows_def compose_markers_both example_one_marker_def
      batch_args_def rasterize_def external_def example_env_def bind_run_def ok_def)


lemma example_one_marker_fields:
  "show_cameras example_one_marker" "show_scene example_one_marker"
  "xyzs example_one_marker = [(0, 0, 0)]"
  by (simp_all add: example_one_marker_def)

text \<open>
  The claim as stated fails when the rows removed and the markers added cancel: the filter
  removes the only primitive of the example scene, one marker is added, and the anchor,
  the rasterized positions, the radii and the visibility mask all have one row.
\<close>

theorem viewspace_points_rows_counterexample:
  "get_xyz example_model = [(1, 0, 0)] \<and>
   kept_rows 1 (get_xyz example_model) = [] \<and>
   markers_shown (Some example_one_marker) \<and>
   xyzs example_one_marker = [(0, 0, 0)] \<and>
   rasterizer_args (fst (render_no_train example_env (Camera example_camera) example_model
       example_pipe (0, 0, 0) 1 ''coarse'' None (Some example_one_marker) 1)) =
     [\<lparr> means3D = [(0, 0, 0)], means2D = [(0, 0, 0)], shs = Sh_tensor 1 [[(0, 0, 0)]],
        colors_precomp = None, opacities = [1], scales = Some [(1, 1, 1)],
        rotations = Some [(1, 0, 0, 0)], cov3D_precomp = None \<rparr>] \<and>
   snd (render_no_train example_env (Camera example_camera) example_model
       example_pipe (0, 0, 0) 1 ''coarse'' None (Some example_one_marker) 1) =
     Inr \<lparr> render_image = [], viewspace_points = [(0, 0, 0)], visibility_filter = [True],
           radii = [1], depth = [] \<rparr> \<and>
   length (viewspace_points
      \<lparr> render_image = [], viewspace_points = [(0, 0, 0)], visibility_filter = [True],
        radii = [1], depth = [] \<rparr>) =
     length (means3D
      \<lparr> means3D = [(0, 0, 0)], means2D = [(0, 0, 0)], shs = Sh_tensor 1 [[(0, 0, 0)]],
        colors_precomp = None, opacities = [1], scales = Some [(1, 1, 1)],
        rotations = Some [(1, 0, 0, 0)], cov3D_precomp = None \<rparr>) \<and>
   length (viewspace_points
      \<lparr> render_image = [], viewspace_points = [(0, 0, 0)], visibility_filter = [True],
        radii = [1], depth = [] \<rparr>) =
     length (radii
      \<lparr> render_image = [], viewspace_points = [(0, 0, 0)], visibility_filter = [True],
        radii = [1], depth = [] \<rparr>)"
  by (simp add: example_marker_run example_model_fields example_kept_none
      example_one_marker_fields)


lemma example_scene2_run:
  "render_no_train example_env (Camera example_camera) example_scene2 example_pipe (0, 0, 0) 1
       ''coarse'' None None 1 =
     ([Rasterizer_call
         (settings_of_camera example_camera example_scene2 example_pipe (0, 0, 0) 1)
         \<lparr> means3D = [(0, 0, 0)], means2D = [(0, 0, 0)], shs = Sh_tensor 1 [[(1, 1, 1)]],
           colors_precomp = None, opacities = [1], scales = Some [(1, 1, 1)],
           rotations = Some [(0, 1, 0, 0)], cov3D_precomp = None \<rparr>],
      Inr \<lparr> render_image = [], viewspace_points = [(0, 0, 0), (0, 0, 0)],
            visibility_filter = [True], radii = [1], depth = [] \<rparr>)"
  by (simp add: render_no_train_def Let_def bind_run_ok deformation_stage_def
      apply_activation_simps example_scene2_fields zeros_like_def filter_arrays_Some
      spatial_filter_select example_kept_rows select_rows_def compose_markers_def
      batch_args_def rasterize_def external_def example_env_def bind_run_def ok_def)

theorem viewspace_points_rows_witness:
  "snd (render_no_train example_env (Camera example_camera) example_scene2 example_pipe
       (0, 0, 0) 1 ''coarse'' None None 1) =
     Inr \<lparr> render_image = [], viewspace_points = [(0, 0, 0), (0, 0, 0)],
           visibility_filter = [True], radii = [1], depth = [] \<rparr> \<and>
   viewspace_points
     \<lparr> render_image = [], viewspace_points = [(0, 0, 0), (0, 0, 0)],
       visibility_filter = [True], radii = [1], depth = [] \<rparr>
     = zeros_like (get_xyz example_scene2) \<and>
   \<not> markers_shown None \<and>
   length (kept_rows 1 (get_xyz example_scene2)) < length (get_xyz example_scene2)"
proof -
  have h: "snd (render_no_train example_env (Camera example_camera) example_scene2
       example_pipe (0, 0, 0) 1 ''coarse'' None None 1) =
     Inr \<lparr> render_image = [], viewspace_points = [(0, 0, 0), (0, 0, 0)],
           visibility_filter = [True], radii = [1], depth = [] \<rparr>"
    by (simp add: example_scene2_run)
  from viewspace_points_rows [OF h] h show ?thesis
    by (simp add: example_scene2_fields example_kept_rows)
qed

end
